theory Spec2Isabelle
  imports Complex_Main "HOL-Library.AList" "HOL-Library.Sublist" "HOL-Library.Multiset"
begin

section \<open>Weather-Wizard: a shallow embedding of the Python sources\<close>

text \<open>
  The development follows the six source files: \<^verbatim>\<open>cache_service.py\<close>,
  \<^verbatim>\<open>weather_service.py\<close>, \<^verbatim>\<open>ai_weather_service.py\<close>, \<^verbatim>\<open>app.py\<close>,
  \<^verbatim>\<open>logger.py\<close> and \<^verbatim>\<open>config.py\<close>.

  Conventions of the embedding.
  \<^item> Python numbers (JSON ints and floats, \<^verbatim>\<open>time.time()\<close>) are the type \<open>real\<close>:
    arithmetic is exact, the rounding of IEEE doubles is not modelled.
  \<^item> Python \<^verbatim>\<open>str\<close> is \<open>string\<close>; \<^verbatim>\<open>lower()\<close> is modelled on ASCII letters.
  \<^item> A naive \<^verbatim>\<open>datetime\<close> is the number of seconds since a fixed midnight; its
    \<^verbatim>\<open>hour\<close> and \<^verbatim>\<open>date()\<close> are computed from that number.
  \<^item> The provider's JSON payloads are records holding the fields the code reads; a
    field the code reads with \<^verbatim>\<open>.get\<close> or tests with \<^verbatim>\<open>in\<close> is an \<open>option\<close>.
  \<^item> Everything the code takes from outside (clock readings, HTTP answers, the parser
    \<^verbatim>\<open>datetime.strptime\<close>) is a field of the record \<open>env\<close>; clock and HTTP answers
    are indexed by a counter \<open>tick\<close> of the state that every reading advances.
  \<^item> Mutable objects (the cache dictionary, the logger output, the \<^verbatim>\<open>models\<close>
    dictionary) are fields of the record \<open>state\<close>, passed through every operation.
  \<^item> An exception is a value of the type \<open>exc\<close>, and a function that can raise
    returns \<open>exc + 'a\<close>.
\<close>

subsection \<open>Strings\<close>

text \<open>Python's \<^verbatim>\<open>sub in s\<close> on strings: \<open>sub\<close> occurs in \<open>s\<close> as a contiguous block.\<close>

fun str_in :: "string \<Rightarrow> string \<Rightarrow> bool" where
  "str_in sub [] = (sub = [])"
| "str_in sub (c # cs) = (prefix sub (c # cs) \<or> str_in sub cs)"

text \<open>\<^verbatim>\<open>s.replace(old, new)\<close>: the non-overlapping occurrences of \<open>old\<close>, scanned from
  the left, are replaced; for an empty \<open>old\<close> Python puts \<open>new\<close> before every character
  and at the end.\<close>

function str_replace_ne :: "string \<Rightarrow> string \<Rightarrow> string \<Rightarrow> string" where
  "str_replace_ne old new s =
     (if old = [] \<or> s = [] then s
      else if prefix old s then new @ str_replace_ne old new (drop (length old) s)
      else hd s # str_replace_ne old new (tl s))"
  by pat_completeness auto
termination
  by (relation "measure (\<lambda>(old, new, s). length s)") auto

definition str_replace :: "string \<Rightarrow> string \<Rightarrow> string \<Rightarrow> string" where
  "str_replace s old new =
     (if old = [] then new @ concat (map (\<lambda>c. c # new) s)
      else str_replace_ne old new s)"

definition lower_char :: "char \<Rightarrow> char" where
  "lower_char c =
     (case map_of (zip ''ABCDEFGHIJKLMNOPQRSTUVWXYZ'' ''abcdefghijklmnopqrstuvwxyz'') c of
        Some d \<Rightarrow> d
      | None \<Rightarrow> c)"

definition lower :: "string \<Rightarrow> string" where
  "lower s = map lower_char s"

text \<open>An f-string whose holes are filled with numbers is kept as its list of parts:
  the decimal rendering of a float is not modelled.\<close>

datatype fpart = Lit string | Num real

type_synonym fstring = "fpart list"

subsection \<open>The provider's payloads\<close>

text \<open>One entry of \<^verbatim>\<open>data["list"]\<close> of the forecast answer. \<open>f_rain\<close> is \<open>None\<close> when the
  key \<^verbatim>\<open>rain\<close> is absent, \<open>Some None\<close> when it is present without the key \<^verbatim>\<open>3h\<close>.
  \<open>f_ai_confidence\<close> is the key \<^verbatim>\<open>ai_confidence\<close>, \<open>None\<close> while it is not set.\<close>

record forecast_item =
  f_dt :: real
  f_dt_txt :: string
  f_temp :: real
  f_feels_like :: real
  f_humidity :: real
  f_pressure :: real
  f_wind_speed :: real
  f_wind_deg :: real
  f_weather_main :: string
  f_weather_description :: string
  f_weather_icon :: string
  f_rain :: "real option option"
  f_ai_confidence :: "real option"

text \<open>The forecast answer; \<open>fc_ai_enhanced\<close> says that the key \<^verbatim>\<open>ai_enhanced\<close> is set.\<close>

record forecast_data =
  fc_city_id :: real
  fc_city_name :: string
  fc_city_country :: string
  fc_city_timezone :: real
  fc_list :: "forecast_item list"
  fc_ai_enhanced :: bool

record wind =
  wind_speed :: "real option"
  wind_deg :: "real option"

record api_alert =
  alert_event :: "string option"
  alert_description :: "string option"

text \<open>The current-weather answer. The key \<^verbatim>\<open>wind\<close> and the key \<^verbatim>\<open>alerts\<close> may be
  absent.\<close>

record current_data =
  c_name :: string
  c_country :: string
  c_temp :: real
  c_feels_like :: real
  c_humidity :: real
  c_pressure :: real
  c_wind :: "wind option"
  c_weather_main :: string
  c_weather_description :: string
  c_weather_icon :: string
  c_dt :: real
  c_alerts :: "api_alert list option"

subsection \<open>Python values held by the cache\<close>

text \<open>The cache stores any Python value. \<open>PyForecast\<close> is the dictionary of a forecast
  answer (raw or enhanced); \<open>PyDict\<close> is any other dictionary, with its items in
  insertion order.\<close>

datatype pyval =
    PyNone
  | PyBool bool
  | PyNum real
  | PyStr string
  | PyList "pyval list"
  | PyDict "(string \<times> pyval) list"
  | PyForecast forecast_data

text \<open>Truth value of an object in a condition (\<^verbatim>\<open>if cached_data:\<close>).\<close>

fun truthy :: "pyval \<Rightarrow> bool" where
  "truthy PyNone = False"
| "truthy (PyBool b) = b"
| "truthy (PyNum x) = (x \<noteq> 0)"
| "truthy (PyStr s) = (s \<noteq> [])"
| "truthy (PyList xs) = (xs \<noteq> [])"
| "truthy (PyDict kvs) = (kvs \<noteq> [])"
| "truthy (PyForecast d) = True"

subsection \<open>JSON values of a request body\<close>

text \<open>What \<^verbatim>\<open>request.json\<close> gives the handler: any parsed JSON value. \<open>JObj\<close> holds the
  items of the parsed dictionary.\<close>

datatype json =
    JNull
  | JBool bool
  | JInt int
  | JFloat real
  | JStr string
  | JArr "json list"
  | JObj "(string \<times> json) list"

text \<open>Truth value of the body in \<^verbatim>\<open>not data\<close>.\<close>

fun json_truthy :: "json \<Rightarrow> bool" where
  "json_truthy JNull = False"
| "json_truthy (JBool b) = b"
| "json_truthy (JInt n) = (n \<noteq> 0)"
| "json_truthy (JFloat x) = (x \<noteq> 0)"
| "json_truthy (JStr s) = (s \<noteq> [])"
| "json_truthy (JArr xs) = (xs \<noteq> [])"
| "json_truthy (JObj kvs) = (kvs \<noteq> [])"

subsection \<open>Exceptions\<close>

text \<open>A \<^verbatim>\<open>requests.exceptions.RequestException\<close>: its text \<^verbatim>\<open>str(e)\<close> and its attribute
  \<^verbatim>\<open>response\<close>, when there is one, as the pair of the response's truth value (its
  \<^verbatim>\<open>ok\<close> flag) and its \<^verbatim>\<open>text\<close>.\<close>

record req_error =
  err_msg :: string
  err_response :: "(bool \<times> string) option"

datatype exc =
    RequestException req_error
  | KeyError string
  | IndexError string
  | TypeError string
  | ValueError string
  | AttributeError string
  | Exception string

fun str_exc :: "exc \<Rightarrow> string" where
  "str_exc (RequestException r) = err_msg r"
| "str_exc (KeyError k) = [CHR 0x27] @ k @ [CHR 0x27]"
| "str_exc (IndexError m) = m"
| "str_exc (TypeError m) = m"
| "str_exc (ValueError m) = m"
| "str_exc (AttributeError m) = m"
| "str_exc (Exception m) = m"

text \<open>\<^verbatim>\<open>key in data\<close> on a parsed JSON value: a key of a dictionary, an element of a list,
  a piece of a string; a number, a boolean and \<^verbatim>\<open>None\<close> are not iterable.\<close>

fun json_contains :: "string \<Rightarrow> json \<Rightarrow> exc + bool" where
  "json_contains key (JObj kvs) = Inr (key \<in> fst ` set kvs)"
| "json_contains key (JArr xs) = Inr (JStr key \<in> set xs)"
| "json_contains key (JStr s) = Inr (str_in key s)"
| "json_contains key (JInt n) = Inl (TypeError ''argument of type 'int' is not iterable'')"
| "json_contains key (JFloat x) = Inl (TypeError ''argument of type 'float' is not iterable'')"
| "json_contains key (JBool b) = Inl (TypeError ''argument of type 'bool' is not iterable'')"
| "json_contains key JNull = Inl (TypeError ''argument of type 'NoneType' is not iterable'')"

subsection \<open>Environment and state\<close>

datatype level = DEBUG | INFO | WARNING | ERROR

type_synonym params = "(string \<times> string) list"

text \<open>The mutable objects of the process: the dictionary and the expiry of the one
  \<^verbatim>\<open>CacheService\<close>, the keys of \<^verbatim>\<open>AIWeatherService.models\<close>, every call of a logger
  method, every HTTP request sent, and the counter of outside readings.\<close>

record state =
  cache :: "(string \<times> pyval \<times> real) list"
  expiry :: real
  models :: "string list"
  logs :: "(level \<times> fstring) list"
  requests :: "(string \<times> params) list"
  tick :: nat

definition logger_log :: "level \<Rightarrow> fstring \<Rightarrow> state \<Rightarrow> state" where
  "logger_log l m s = s\<lparr>logs := logs s @ [(l, m)]\<rparr>"

text \<open>An alert dictionary of \<^verbatim>\<open>get_personalized_alerts\<close>.\<close>

record alert =
  a_type :: string
  a_time :: string
  a_message :: fstring
  a_severity :: real

text \<open>What the process reads from outside. \<open>http_weather\<close> and \<open>http_forecast\<close> stand for
  \<^verbatim>\<open>requests.get(url, params)\<close>, \<^verbatim>\<open>raise_for_status()\<close> and \<^verbatim>\<open>json()\<close> on the two URLs
  the code calls; \<open>strptime\<close> is \<^verbatim>\<open>datetime.strptime(_, '%Y-%m-%d %H:%M:%S')\<close>, with
  the text of its \<^verbatim>\<open>ValueError\<close> on the left; \<open>format_exc\<close> is \<^verbatim>\<open>traceback.format_exc()\<close> in
  the handler of the given exception. Three fields serve the POST endpoint:
  \<open>str_of_json\<close> is \<^verbatim>\<open>str()\<close> of a parsed JSON value that is not a string, as an f-string
  renders it; \<open>str_internal_server_error\<close> is \<^verbatim>\<open>str()\<close> of the error object Flask hands to
  the handler of status 500 after an exception no endpoint caught; \<open>untyped_alerts\<close> is the
  outcome of \<^verbatim>\<open>get_personalized_alerts(city, user_preferences)\<close> on the arguments that
  \<open>AIWeatherService_get_personalized_alerts\<close> below does not cover, a \<^verbatim>\<open>city\<close> that is not a
  string or \<^verbatim>\<open>preferences\<close> that are not a dictionary of numbers: nothing is assumed about
  it.\<close>

record env =
  api_key :: string
  time_time :: "nat \<Rightarrow> real"
  datetime_now :: "nat \<Rightarrow> real"
  http_weather :: "nat \<Rightarrow> params \<Rightarrow> req_error + current_data"
  http_forecast :: "nat \<Rightarrow> params \<Rightarrow> req_error + forecast_data"
  strptime :: "string \<Rightarrow> string + real"
  format_exc :: "exc \<Rightarrow> string"
  str_of_json :: "json \<Rightarrow> string"
  str_internal_server_error :: string
  untyped_alerts :: "json \<Rightarrow> json \<Rightarrow> state \<Rightarrow> (exc + alert list) \<times> state"

subsection \<open>\<^verbatim>\<open>cache_service.py\<close>\<close>

definition CacheService_init :: "real \<Rightarrow> state" where
  "CacheService_init e =
     logger_log INFO [Lit ''Cache service initialized with '', Num e, Lit ''s expiry time'']
       \<lparr>cache = [], expiry = e, models = [], logs = [], requests = [], tick = 0\<rparr>"

definition CacheService_get :: "env \<Rightarrow> string \<Rightarrow> state \<Rightarrow> pyval \<times> state" where
  "CacheService_get env key s =
     (case map_of (cache s) key of
        Some (val, timestamp) \<Rightarrow>
          (let now = time_time env (tick s);
               s1 = s\<lparr>tick := Suc (tick s)\<rparr>
           in if now - timestamp < expiry s
              then (val, logger_log DEBUG [Lit (''Cache hit for key: '' @ key)] s1)
              else (let s2 = logger_log DEBUG [Lit (''Cache entry expired for key: '' @ key)] s1;
                        s3 = s2\<lparr>cache := AList.delete key (cache s2)\<rparr>
                    in (PyNone, logger_log DEBUG [Lit (''Cache miss for key: '' @ key)] s3)))
      | None \<Rightarrow> (PyNone, logger_log DEBUG [Lit (''Cache miss for key: '' @ key)] s))"

definition CacheService_set :: "env \<Rightarrow> string \<Rightarrow> pyval \<Rightarrow> state \<Rightarrow> state" where
  "CacheService_set env key val s =
     (let s1 = logger_log DEBUG [Lit (''Setting cache for key: '' @ key)] s;
          now = time_time env (tick s1)
      in s1\<lparr>cache := AList.update key (val, now) (cache s1), tick := Suc (tick s1)\<rparr>)"

definition CacheService_delete :: "string \<Rightarrow> state \<Rightarrow> bool \<times> state" where
  "CacheService_delete key s =
     (if key \<in> fst ` set (cache s)
      then (let s1 = logger_log DEBUG [Lit (''Deleting cache for key: '' @ key)] s
            in (True, s1\<lparr>cache := AList.delete key (cache s1)\<rparr>))
      else (False, logger_log DEBUG [Lit (''Attempted to delete non-existent cache key: '' @ key)] s))"

definition CacheService_clear :: "state \<Rightarrow> state" where
  "CacheService_clear s = (logger_log INFO [Lit ''Clearing all cache entries''] s)\<lparr>cache := []\<rparr>"

text \<open>The first loop of \<^verbatim>\<open>cleanup\<close>: one clock reading per entry.\<close>

fun expired_keys :: "env \<Rightarrow> real \<Rightarrow> (string \<times> pyval \<times> real) list \<Rightarrow> nat \<Rightarrow> string list \<times> nat" where
  "expired_keys env e [] n = ([], n)"
| "expired_keys env e ((key, (_, timestamp)) # items) n =
     (let (keys, n') = expired_keys env e items (Suc n)
      in (if time_time env n - timestamp \<ge> e then key # keys else keys, n'))"

definition CacheService_cleanup :: "env \<Rightarrow> state \<Rightarrow> state" where
  "CacheService_cleanup env s =
     (let (keys_to_delete, n) = expired_keys env (expiry s) (cache s) (tick s);
          s1 = s\<lparr>cache := fold AList.delete keys_to_delete (cache s), tick := n\<rparr>
      in logger_log INFO [Lit ''Cache cleanup: removed '', Num (real (length keys_to_delete)),
                   Lit '' expired entries''] s1)"

subsection \<open>\<^verbatim>\<open>weather_service.py\<close>\<close>

text \<open>\<^verbatim>\<open>requests.get(url, params=params)\<close> with \<^verbatim>\<open>raise_for_status()\<close> and \<^verbatim>\<open>json()\<close>: the request
  is recorded and the answer is read from the environment.\<close>

definition requests_get_weather ::
    "env \<Rightarrow> string \<Rightarrow> params \<Rightarrow> state \<Rightarrow> (req_error + current_data) \<times> state" where
  "requests_get_weather env url ps s =
     (http_weather env (tick s) ps,
      s\<lparr>requests := requests s @ [(url, ps)], tick := Suc (tick s)\<rparr>)"

definition requests_get_forecast ::
    "env \<Rightarrow> string \<Rightarrow> params \<Rightarrow> state \<Rightarrow> (req_error + forecast_data) \<times> state" where
  "requests_get_forecast env url ps s =
     (http_forecast env (tick s) ps,
      s\<lparr>requests := requests s @ [(url, ps)], tick := Suc (tick s)\<rparr>)"

definition base_url :: string where
  "base_url = ''https://api.openweathermap.org/data/2.5''"

definition query_params :: "env \<Rightarrow> string \<Rightarrow> params" where
  "query_params env city = [(''q'', city), (''appid'', api_key env), (''units'', ''metric'')]"

text \<open>The redaction both handlers of \<^verbatim>\<open>WeatherService\<close> apply to a text:
  \<^verbatim>\<open>if self.api_key in text: text = text.replace(self.api_key, "[REDACTED]")\<close>.\<close>

definition redact :: "env \<Rightarrow> string \<Rightarrow> string" where
  "redact env text =
     (if str_in (api_key env) text then str_replace text (api_key env) ''[REDACTED]''
      else text)"

text \<open>The \<^verbatim>\<open>except requests.exceptions.RequestException\<close> block shared, up to the two
  message prefixes, by \<^verbatim>\<open>get_current_weather\<close> and \<^verbatim>\<open>get_forecast\<close>.\<close>

definition handle_request_exception ::
    "env \<Rightarrow> string \<Rightarrow> string \<Rightarrow> req_error \<Rightarrow> state \<Rightarrow> (exc + pyval) \<times> state" where
  "handle_request_exception env log_prefix raise_prefix e s =
     (let error_message = redact env (err_msg e);
          s1 = logger_log ERROR [Lit (log_prefix @ error_message)] s;
          s2 = (case err_response e of
                  Some (ok, response_text) \<Rightarrow>
                    if ok then logger_log ERROR [Lit (''Response content: '' @ redact env response_text)] s1
                    else s1
                | None \<Rightarrow> s1)
      in (Inl (Exception (raise_prefix @ error_message)), s2))"

text \<open>\<^verbatim>\<open>data["wind"]["speed"]\<close> and \<^verbatim>\<open>data["wind"]["deg"]\<close> on the current-weather answer.\<close>

definition wind_item :: "current_data \<Rightarrow> string \<Rightarrow> (wind \<Rightarrow> real option) \<Rightarrow> exc + real" where
  "wind_item data key field =
     (case c_wind data of
        None \<Rightarrow> Inl (KeyError ''wind'')
      | Some w \<Rightarrow> (case field w of None \<Rightarrow> Inl (KeyError key) | Some x \<Rightarrow> Inr x))"

definition format_current :: "current_data \<Rightarrow> exc + pyval" where
  "format_current data =
     (case wind_item data ''speed'' wind_speed of
        Inl e \<Rightarrow> Inl e
      | Inr speed \<Rightarrow>
          (case wind_item data ''deg'' wind_deg of
             Inl e \<Rightarrow> Inl e
           | Inr deg \<Rightarrow>
               Inr (PyDict
                 [(''city'', PyStr (c_name data)),
                  (''country'', PyStr (c_country data)),
                  (''temperature'', PyNum (c_temp data)),
                  (''feels_like'', PyNum (c_feels_like data)),
                  (''humidity'', PyNum (c_humidity data)),
                  (''pressure'', PyNum (c_pressure data)),
                  (''wind_speed'', PyNum speed),
                  (''wind_direction'', PyNum deg),
                  (''weather_main'', PyStr (c_weather_main data)),
                  (''weather_description'', PyStr (c_weather_description data)),
                  (''weather_icon'', PyStr (c_weather_icon data)),
                  (''timestamp'', PyNum (c_dt data))])))"

definition WeatherService_get_current_weather ::
    "env \<Rightarrow> string \<Rightarrow> state \<Rightarrow> (exc + pyval) \<times> state" where
  "WeatherService_get_current_weather env city s =
     (let cache_key = ''current_weather_'' @ city;
          (cached_data, s1) = CacheService_get env cache_key s
      in if truthy cached_data
         then (Inr cached_data,
               logger_log INFO [Lit (''Using cached current weather data for '' @ city)] s1)
         else
           (let s2 = logger_log INFO [Lit (''Fetching current weather data for '' @ city @ '' from API'')] s1;
                url = base_url @ ''/weather'';
                (response, s3) = requests_get_weather env url (query_params env city) s2
            in case response of
                 Inr data \<Rightarrow>
                   (case format_current data of
                      Inl e \<Rightarrow> (Inl e, s3)
                    | Inr formatted_data \<Rightarrow>
                        (Inr formatted_data, CacheService_set env cache_key formatted_data s3))
               | Inl e \<Rightarrow>
                   handle_request_exception env ''Error fetching current weather data: ''
                     ''Failed to fetch current weather data: '' e s3))"

text \<open>\<^verbatim>\<open>s.split(" ")\<close>: the pieces between single spaces.\<close>

fun split_sp :: "string \<Rightarrow> string list" where
  "split_sp [] = [[]]"
| "split_sp (c # cs) =
     (if c = CHR '' '' then [] # split_sp cs
      else (case split_sp cs of p # ps \<Rightarrow> (c # p) # ps | [] \<Rightarrow> [[c]]))"

text \<open>The dictionary \<^verbatim>\<open>forecast_item\<close> and the loop over \<^verbatim>\<open>data["list"]\<close> in
  \<^verbatim>\<open>get_forecast\<close>; \<open>days\<close> is the dictionary from dates to lists of entries, in
  insertion order. \<^verbatim>\<open>split(" ")[1]\<close> raises when the text holds no space.\<close>

definition forecast_entry :: "string \<Rightarrow> forecast_item \<Rightarrow> pyval" where
  "forecast_entry time item =
     PyDict
       [(''time'', PyStr time),
        (''timestamp'', PyNum (f_dt item)),
        (''temperature'', PyNum (f_temp item)),
        (''feels_like'', PyNum (f_feels_like item)),
        (''humidity'', PyNum (f_humidity item)),
        (''pressure'', PyNum (f_pressure item)),
        (''wind_speed'', PyNum (f_wind_speed item)),
        (''wind_direction'', PyNum (f_wind_deg item)),
        (''weather_main'', PyStr (f_weather_main item)),
        (''weather_description'', PyStr (f_weather_description item)),
        (''weather_icon'', PyStr (f_weather_icon item))]"

fun organize_days ::
    "forecast_item list \<Rightarrow> (string \<times> pyval list) list \<Rightarrow> exc + (string \<times> pyval list) list" where
  "organize_days [] days = Inr days"
| "organize_days (item # items) days =
     (case split_sp (f_dt_txt item) of
        date # time # _ \<Rightarrow>
          (let days1 = (if date \<notin> fst ` set days then days @ [(date, [])] else days);
               entries = (case map_of days1 date of Some es \<Rightarrow> es | None \<Rightarrow> [])
           in organize_days items
                (AList.update date (entries @ [forecast_entry time item]) days1))
      | _ \<Rightarrow> Inl (IndexError ''list index out of range''))"

definition format_forecast :: "forecast_data \<Rightarrow> exc + pyval" where
  "format_forecast data =
     (let city_info = PyDict
            [(''id'', PyNum (fc_city_id data)),
             (''name'', PyStr (fc_city_name data)),
             (''country'', PyStr (fc_city_country data)),
             (''timezone'', PyNum (fc_city_timezone data))]
      in case organize_days (fc_list data) [] of
           Inl e \<Rightarrow> Inl e
         | Inr days \<Rightarrow>
             Inr (PyDict
               [(''city'', city_info),
                (''days'', PyDict (map (\<lambda>(date, entries). (date, PyList entries)) days))]))"

definition WeatherService_get_forecast ::
    "env \<Rightarrow> string \<Rightarrow> state \<Rightarrow> (exc + pyval) \<times> state" where
  "WeatherService_get_forecast env city s =
     (let cache_key = ''forecast_'' @ city;
          (cached_data, s1) = CacheService_get env cache_key s
      in if truthy cached_data
         then (Inr cached_data, logger_log INFO [Lit (''Using cached forecast data for '' @ city)] s1)
         else
           (let s2 = logger_log INFO [Lit (''Fetching forecast data for '' @ city @ '' from API'')] s1;
                url = base_url @ ''/forecast'';
                (response, s3) = requests_get_forecast env url (query_params env city) s2
            in case response of
                 Inr data \<Rightarrow>
                   (case format_forecast data of
                      Inl e \<Rightarrow> (Inl e, s3)
                    | Inr formatted_data \<Rightarrow>
                        (Inr formatted_data, CacheService_set env cache_key formatted_data s3))
               | Inl e \<Rightarrow>
                   handle_request_exception env ''Error fetching forecast data: ''
                     ''Failed to fetch forecast data: '' e s3))"

subsection \<open>\<^verbatim>\<open>ai_weather_service.py\<close>: the enhanced forecast\<close>

text \<open>\<^verbatim>\<open>dt.hour\<close> and \<^verbatim>\<open>dt.date()\<close> of a naive datetime given in seconds.\<close>

definition hour_of :: "real \<Rightarrow> int" where
  "hour_of t = (\<lfloor>t\<rfloor> div 3600) mod 24"

definition date_of :: "real \<Rightarrow> int" where
  "date_of t = \<lfloor>t\<rfloor> div 86400"

text \<open>The local variables \<^verbatim>\<open>temp_adjustment\<close> and \<^verbatim>\<open>confidence\<close> of the loop of
  \<^verbatim>\<open>_enhance_forecast_with_ai\<close>, as functions of \<^verbatim>\<open>hour\<close> and of
  \<^verbatim>\<open>forecast_time_delta\<close>.\<close>

definition temp_adjustment :: "int \<Rightarrow> real" where
  "temp_adjustment hour =
     (if 10 \<le> hour \<and> hour \<le> 16 then 0.5
      else if 22 \<le> hour \<or> hour \<le> 4 then - 0.3
      else 0)"

definition confidence :: "real \<Rightarrow> real" where
  "confidence forecast_time_delta = max (0.95 - (forecast_time_delta * 0.005)) 0.6"

text \<open>The body of the loop for one entry, \<open>dt\<close> being the parsed \<^verbatim>\<open>dt_txt\<close> and \<open>now\<close> the
  reading of \<^verbatim>\<open>datetime.now()\<close>.\<close>

definition enhance_item :: "real \<Rightarrow> real \<Rightarrow> forecast_item \<Rightarrow> forecast_item" where
  "enhance_item dt now item =
     (let hour = hour_of dt;
          forecast_time_delta = (dt - now) / 3600
      in item\<lparr>f_temp := f_temp item + temp_adjustment hour,
              f_feels_like := f_feels_like item + temp_adjustment hour,
              f_ai_confidence := Some (confidence forecast_time_delta)\<rparr>)"

fun enhance_loop :: "env \<Rightarrow> forecast_item list \<Rightarrow> nat \<Rightarrow> (exc + forecast_item list) \<times> nat" where
  "enhance_loop env [] n = (Inr [], n)"
| "enhance_loop env (item # items) n =
     (case strptime env (f_dt_txt item) of
        Inl m \<Rightarrow> (Inl (ValueError m), n)
      | Inr dt \<Rightarrow>
          (let item1 = enhance_item dt (datetime_now env n) item;
               (r, n1) = enhance_loop env items (Suc n)
           in (case r of Inl e \<Rightarrow> (Inl e, n1) | Inr items1 \<Rightarrow> (Inr (item1 # items1), n1))))"

definition enhance_forecast_with_ai ::
    "env \<Rightarrow> string \<Rightarrow> forecast_data \<Rightarrow> state \<Rightarrow> (exc + forecast_data) \<times> state" where
  "enhance_forecast_with_ai env city forecast_data s =
     (let s1 = (if city \<notin> set (models s) then s\<lparr>models := models s @ [city]\<rparr> else s);
          (r, n) = enhance_loop env (fc_list forecast_data) (tick s1);
          s2 = s1\<lparr>tick := n\<rparr>
      in case r of
           Inl e \<Rightarrow> (Inl e, s2)
         | Inr items \<Rightarrow>
             (Inr (forecast_data\<lparr>fc_list := items,
                     fc_ai_enhanced := (fc_ai_enhanced forecast_data \<or> items \<noteq> [])\<rparr>), s2))"

definition AIWeatherService_get_enhanced_forecast ::
    "env \<Rightarrow> string \<Rightarrow> state \<Rightarrow> (exc + pyval) \<times> state" where
  "AIWeatherService_get_enhanced_forecast env city s =
     (let cache_key = ''enhanced_forecast:'' @ city;
          (cached_data, s1) = CacheService_get env cache_key s
      in if truthy cached_data
         then (Inr cached_data,
               logger_log INFO [Lit (''Returning enhanced forecast for '' @ city @ '' from cache'')] s1)
         else
           (let forecast_url = ''https://api.openweathermap.org/data/2.5/forecast'';
                (response, s2) = requests_get_forecast env forecast_url (query_params env city) s1;
                (result, s3) =
                  (case response of
                     Inl e \<Rightarrow> (Inl (RequestException e), s2)
                   | Inr forecast_data \<Rightarrow>
                       (case enhance_forecast_with_ai env city forecast_data s2 of
                          (Inl e, s') \<Rightarrow> (Inl e, s')
                        | (Inr enhanced_data, s') \<Rightarrow>
                            (Inr (PyForecast enhanced_data),
                             CacheService_set env cache_key (PyForecast enhanced_data) s')))
            in case result of
                 Inr enhanced_data \<Rightarrow> (Inr enhanced_data, s3)
               | Inl e \<Rightarrow>
                   (Inl (Exception (''Failed to fetch enhanced forecast: '' @ str_exc e)),
                    logger_log ERROR [Lit (''Error fetching enhanced forecast for '' @ city @ '': ''
                                    @ str_exc e)] s3)))"

subsection \<open>\<^verbatim>\<open>ai_weather_service.py\<close>: personalized alerts\<close>

text \<open>The dictionary \<^verbatim>\<open>user_preferences\<close>; a field is \<open>None\<close> when its key is absent.\<close>

record prefs =
  p_rain_sensitivity :: "real option"
  p_temp_sensitivity :: "real option"
  p_wind_sensitivity :: "real option"
  p_alert_threshold :: "real option"

text \<open>\<^verbatim>\<open>user_preferences.get(key, default)\<close>.\<close>

definition pref_get :: "real option \<Rightarrow> real \<Rightarrow> real" where
  "pref_get v dflt = (case v of Some x \<Rightarrow> x | None \<Rightarrow> dflt)"

text \<open>The UTF-8 bytes of the degree sign in the messages.\<close>

definition deg_sign :: string where
  "deg_sign = [CHR 0xC2, CHR 0xB0]"

text \<open>\<^verbatim>\<open>any(term in weather_condition or term in weather_description for term in terms)\<close>.\<close>

definition any_term :: "string list \<Rightarrow> string \<Rightarrow> string \<Rightarrow> bool" where
  "any_term terms weather_condition weather_description =
     list_ex (\<lambda>t. str_in t weather_condition \<or> str_in t weather_description) terms"

definition check_severe_weather_conditions ::
    "alert list \<Rightarrow> string \<Rightarrow> string \<Rightarrow> real \<Rightarrow> real \<Rightarrow> real \<Rightarrow> prefs \<Rightarrow> string \<Rightarrow> alert list" where
  "check_severe_weather_conditions alerts weather_condition weather_description
       temp wind humidity user_preferences time =
     (let alerts1 =
            (if any_term [''thunderstorm'', ''storm'', ''thunder''] weather_condition weather_description
             then alerts @
               [\<lparr>a_type = ''severe_storm'', a_time = time,
                 a_message = [Lit (''SEVERE WEATHER ALERT: Thunderstorm expected at '' @ time
                                   @ ''. Take shelter and stay indoors.'')],
                 a_severity = 1.0\<rparr>]
             else alerts);
          alerts2 =
            (if (str_in ''heavy'' weather_description
                   \<and> (str_in ''rain'' weather_condition \<or> str_in ''rain'' weather_description))
                \<or> str_in ''torrential'' weather_description
             then alerts1 @
               [\<lparr>a_type = ''heavy_rain'', a_time = time,
                 a_message = [Lit (''SEVERE WEATHER ALERT: Heavy rainfall expected at '' @ time
                                   @ ''. Flooding possible, avoid travel if possible.'')],
                 a_severity = 0.9\<rparr>]
             else alerts1);
          alerts3 =
            (if temp > 35 \<and> humidity > 60
             then alerts2 @
               [\<lparr>a_type = ''heatwave'', a_time = time,
                 a_message = [Lit (''SEVERE WEATHER ALERT: Extreme heat conditions at '' @ time
                                   @ ''. Temperature ''), Num temp,
                              Lit (deg_sign @ ''C with high humidity ''), Num humidity,
                              Lit ''%. Stay hydrated and avoid outdoor activities.''],
                 a_severity = 0.95\<rparr>]
             else alerts2);
          alerts4 =
            (if ((str_in ''snow'' weather_condition \<or> str_in ''snow'' weather_description)
                   \<and> (str_in ''heavy'' weather_description \<or> wind > 10))
                \<or> str_in ''blizzard'' weather_description
             then alerts3 @
               [\<lparr>a_type = ''winter_storm'', a_time = time,
                 a_message = [Lit (''SEVERE WEATHER ALERT: Severe winter conditions at '' @ time
                                   @ ''. Heavy snow and limited visibility. Avoid unnecessary travel.'')],
                 a_severity = 0.95\<rparr>]
             else alerts3);
          alerts5 =
            (if any_term [''hurricane'', ''typhoon'', ''cyclone''] weather_condition weather_description
             then alerts4 @
               [\<lparr>a_type = ''hurricane'', a_time = time,
                 a_message = [Lit (''EMERGENCY WEATHER ALERT: Hurricane/cyclone conditions at '' @ time
                                   @ ''. Seek immediate shelter and follow evacuation orders.'')],
                 a_severity = 1.0\<rparr>]
             else alerts4);
          alerts6 =
            (if str_in ''tornado'' weather_description
             then alerts5 @
               [\<lparr>a_type = ''tornado'', a_time = time,
                 a_message = [Lit (''EMERGENCY WEATHER ALERT: Tornado conditions at '' @ time
                                   @ ''. Seek shelter immediately in a basement or interior room.'')],
                 a_severity = 1.0\<rparr>]
             else alerts5)
      in if temp < - 15
         then alerts6 @
           [\<lparr>a_type = ''extreme_cold'', a_time = time,
             a_message = [Lit (''SEVERE WEATHER ALERT: Extreme cold conditions at '' @ time
                               @ ''. Temperature ''), Num temp,
                          Lit (deg_sign @ ''C. Risk of frostbite and hypothermia.'')],
             a_severity = 0.9\<rparr>]
         else alerts6)"

text \<open>The alert built from one entry of \<^verbatim>\<open>current_data['alerts']\<close>.\<close>

definition severe_alert :: "api_alert \<Rightarrow> alert" where
  "severe_alert al =
     \<lparr>a_type = ''severe_alert'', a_time = ''now'',
      a_message = [Lit (''WEATHER ALERT: ''
                        @ (case alert_event al of Some ev \<Rightarrow> ev | None \<Rightarrow> ''Severe weather'')
                        @ ''. ''
                        @ (case alert_description al of Some d \<Rightarrow> d | None \<Rightarrow> []))],
      a_severity = 1.0\<rparr>"

text \<open>The body of the loop \<^verbatim>\<open>for day in forecast['list'][:16]\<close>.\<close>

definition day_alerts :: "prefs \<Rightarrow> alert list \<Rightarrow> forecast_item \<Rightarrow> alert list" where
  "day_alerts user_preferences alerts day =
     (let rain_sensitivity = pref_get (p_rain_sensitivity user_preferences) 0.5;
          temp_sensitivity = pref_get (p_temp_sensitivity user_preferences) 0.5;
          wind_sensitivity = pref_get (p_wind_sensitivity user_preferences) 0.5;
          time = f_dt_txt day;
          alerts1 = check_severe_weather_conditions alerts
                      (lower (f_weather_main day)) (lower (f_weather_description day))
                      (f_temp day) (f_wind_speed day) (f_humidity day) user_preferences time;
          alerts2 =
            (case f_rain day of
               Some rain \<Rightarrow>
                 if rain_sensitivity > 0.3
                 then (let rain_volume = (case rain of Some v \<Rightarrow> v | None \<Rightarrow> 0)
                       in if rain_volume > 1.0 * rain_sensitivity
                          then alerts1 @
                            [\<lparr>a_type = ''rain'', a_time = time,
                              a_message = [Lit ''Expected rainfall of '', Num rain_volume,
                                           Lit (''mm at '' @ time)],
                              a_severity = min (rain_volume / 10) 1.0\<rparr>]
                          else alerts1)
                 else alerts1
             | None \<Rightarrow> alerts1);
          alerts3 =
            (if temp_sensitivity > 0.3
             then (let temp = f_temp day; feels_like = f_feels_like day
                   in if temp > 30 * temp_sensitivity
                      then alerts2 @
                        [\<lparr>a_type = ''high_temp'', a_time = time,
                          a_message = [Lit ''High temperature of '', Num temp,
                                       Lit (deg_sign @ ''C (feels like ''), Num feels_like,
                                       Lit (deg_sign @ ''C) at '' @ time)],
                          a_severity = min ((temp - 25) / 15) 1.0\<rparr>]
                      else if temp < 5 * temp_sensitivity
                      then alerts2 @
                        [\<lparr>a_type = ''low_temp'', a_time = time,
                          a_message = [Lit ''Low temperature of '', Num temp,
                                       Lit (deg_sign @ ''C (feels like ''), Num feels_like,
                                       Lit (deg_sign @ ''C) at '' @ time)],
                          a_severity = min ((5 - temp) / 10) 1.0\<rparr>]
                      else alerts2)
             else alerts2)
      in if wind_sensitivity > 0.3
         then (let wind_speed = f_wind_speed day
               in if wind_speed > 10.0 * wind_sensitivity
                  then alerts3 @
                    [\<lparr>a_type = ''wind'', a_time = time,
                      a_message = [Lit ''Strong winds of '', Num wind_speed,
                                   Lit ('' m/s at '' @ time)],
                      a_severity = min (wind_speed / 20) 1.0\<rparr>]
                  else alerts3)
         else alerts3)"

primrec forecast_loop :: "prefs \<Rightarrow> alert list \<Rightarrow> forecast_item list \<Rightarrow> alert list" where
  "forecast_loop user_preferences alerts [] = alerts"
| "forecast_loop user_preferences alerts (day # days) =
     forecast_loop user_preferences (day_alerts user_preferences alerts day) days"

text \<open>The list \<^verbatim>\<open>alerts\<close> as \<^verbatim>\<open>get_personalized_alerts\<close> holds it when it reaches the
  filter, computed from the current-weather answer and \<^verbatim>\<open>forecast['list']\<close>.\<close>

definition generate_alerts :: "prefs \<Rightarrow> current_data \<Rightarrow> forecast_item list \<Rightarrow> alert list" where
  "generate_alerts user_preferences current_data forecast_list =
     (let weather_condition = lower (c_weather_main current_data);
          weather_description = lower (c_weather_description current_data);
          current_temp = c_temp current_data;
          current_wind = (case c_wind current_data of
                            None \<Rightarrow> 0
                          | Some w \<Rightarrow> (case wind_speed w of None \<Rightarrow> 0 | Some v \<Rightarrow> v));
          current_humidity = c_humidity current_data;
          alerts1 = check_severe_weather_conditions [] weather_condition weather_description
                      current_temp current_wind current_humidity user_preferences ''now'';
          alerts2 = (case c_alerts current_data of
                       Some api_alerts \<Rightarrow> alerts1 @ map severe_alert api_alerts
                     | None \<Rightarrow> alerts1)
      in forecast_loop user_preferences alerts2 (take 16 forecast_list))"

text \<open>The last two statements of the try block: the filter by threshold, and
  \<^verbatim>\<open>alerts.sort(key=lambda x: x['severity'], reverse=True)\<close>, a stable sort.\<close>

definition filter_and_sort :: "real \<Rightarrow> alert list \<Rightarrow> alert list" where
  "filter_and_sort alert_threshold alerts =
     sort_key (\<lambda>x. - a_severity x) (filter (\<lambda>a. a_severity a \<ge> alert_threshold) alerts)"

text \<open>\<^verbatim>\<open>forecast['list']\<close> on what \<^verbatim>\<open>get_enhanced_forecast\<close> returned. A cached value that
  is not a forecast answer raises: a dictionary without the key, any other value for
  not being subscriptable by a string.\<close>

fun forecast_list_of :: "pyval \<Rightarrow> exc + forecast_item list" where
  "forecast_list_of (PyForecast d) = Inr (fc_list d)"
| "forecast_list_of (PyDict kvs) = Inl (KeyError ''list'')"
| "forecast_list_of v = Inl (TypeError ''object is not subscriptable'')"

definition AIWeatherService_get_personalized_alerts ::
    "env \<Rightarrow> string \<Rightarrow> prefs \<Rightarrow> state \<Rightarrow> (exc + alert list) \<times> state" where
  "AIWeatherService_get_personalized_alerts env city user_preferences s =
     (let (result, s3) =
            (case AIWeatherService_get_enhanced_forecast env city s of
               (Inl e, s1) \<Rightarrow> (Inl e, s1)
             | (Inr forecast, s1) \<Rightarrow>
                 (let current_url = ''https://api.openweathermap.org/data/2.5/weather'';
                      (response, s2) = requests_get_weather env current_url (query_params env city) s1
                  in case response of
                       Inl e \<Rightarrow> (Inl (RequestException e), s2)
                     | Inr current_data \<Rightarrow>
                         (let alert_threshold = pref_get (p_alert_threshold user_preferences) 0.7
                          in case forecast_list_of forecast of
                               Inl e \<Rightarrow> (Inl e, s2)
                             | Inr forecast_list \<Rightarrow>
                                 (Inr (filter_and_sort alert_threshold
                                        (generate_alerts user_preferences current_data forecast_list)),
                                  s2))))
      in case result of
           Inr alerts \<Rightarrow> (Inr alerts, s3)
         | Inl e \<Rightarrow>
             (Inl (Exception (''Failed to generate personalized alerts: '' @ str_exc e)),
              logger_log ERROR [Lit (''Error generating personalized alerts for '' @ city @ '': ''
                              @ str_exc e)] s3))"

subsection \<open>\<^verbatim>\<open>ai_weather_service.py\<close>: clothing recommendations\<close>

definition recommend_top :: "real \<Rightarrow> string \<Rightarrow> string" where
  "recommend_top temp weather_condition =
     (if str_in ''rain'' weather_condition \<or> str_in ''drizzle'' weather_condition then
        (if temp > 25 then ''Light waterproof jacket with a breathable t-shirt''
         else if temp > 18 then ''Waterproof raincoat with a cotton shirt''
         else if temp > 10 then ''Waterproof jacket with a warm sweater underneath''
         else ''Insulated waterproof coat with thermal layer'')
      else if str_in ''snow'' weather_condition then
        ''Insulated winter coat with thermal base layer''
      else if str_in ''cloud'' weather_condition then
        (if temp > 28 then ''Light cotton t-shirt or tank top''
         else if temp > 22 then ''Short-sleeve cotton shirt or light blouse''
         else if temp > 15 then ''Long-sleeve shirt with light cardigan or hoodie''
         else if temp > 10 then ''Sweater with light jacket or fleece''
         else if temp > 5 then ''Thick sweater with insulated jacket''
         else ''Thermal base layer with heavy winter coat'')
      else if str_in ''clear'' weather_condition then
        (if temp > 30 then ''Loose, light cotton t-shirt or linen shirt''
         else if temp > 25 then ''Breathable cotton t-shirt or sleeveless top''
         else if temp > 20 then ''Light short-sleeve shirt or polo''
         else if temp > 15 then ''Long-sleeve cotton shirt or light sweater''
         else if temp > 10 then ''Medium-weight sweater or pullover''
         else if temp > 5 then ''Thick sweater with jacket or blazer''
         else ''Thermal base layer with insulated winter coat'')
      else
        (if temp > 25 then ''Light cotton t-shirt or short-sleeve shirt''
         else if temp > 18 then ''Light long-sleeve shirt or blouse''
         else if temp > 10 then ''Sweater or fleece jacket''
         else if temp > 5 then ''Thick sweater with wind-resistant jacket''
         else ''Multiple layers with winter coat''))"

definition recommend_bottom :: "real \<Rightarrow> string" where
  "recommend_bottom temp =
     (if temp > 30 then ''Light, breathable shorts or skirt''
      else if temp > 25 then ''Cotton shorts, skirt, or light chinos''
      else if temp > 20 then ''Lightweight pants, jeans, or capris''
      else if temp > 15 then ''Regular jeans, chinos, or casual pants''
      else if temp > 10 then ''Jeans or medium-weight pants''
      else if temp > 5 then ''Thick jeans or warm trousers''
      else if temp > 0 then ''Thermal-lined pants or jeans with thermals underneath''
      else ''Insulated winter pants with thermal base layer'')"

definition recommend_accessories :: "real \<Rightarrow> string \<Rightarrow> real \<Rightarrow> string list" where
  "recommend_accessories temp weather_condition wind =
     (let acc1 = (if temp < 12 then [''Warm gloves or mittens''] else []);
          acc2 = (if temp < 8 then acc1 @ [''Thermal neck gaiter or scarf''] else acc1);
          acc3 = (if temp < 5 then acc2 @ [''Insulated beanie or winter hat'']
                  else if temp > 28 then acc2 @ [''Breathable hat or cap for sun protection'']
                  else acc2);
          acc4 = (if str_in ''rain'' weather_condition \<or> str_in ''drizzle'' weather_condition
                  then acc3 @ [''Compact umbrella'']
                       @ (if temp < 15 then [''Waterproof boots''] else [''Water-resistant footwear''])
                  else acc3);
          acc5 = (if str_in ''snow'' weather_condition
                  then acc4 @ [''Insulated waterproof boots'', ''Thermal socks'']
                  else acc4);
          acc6 = (if (str_in ''clear'' weather_condition \<or> str_in ''sun'' weather_condition)
                     \<and> temp > 20
                  then acc5 @ [''UV-protective sunglasses'', ''SPF 30+ sunscreen'']
                       @ (if temp > 28 then [''Water bottle to stay hydrated''] else [])
                  else acc5)
      in if wind > 8
         then acc6 @ (if temp < 15 then [''Wind-resistant face protection''] else [])
              @ (if temp < 10 then [''Windproof gloves'']
                 else [''Windbreaker or wind-resistant layer''])
         else acc6)"

definition generate_recommendation_explanation :: "real \<Rightarrow> string \<Rightarrow> real \<Rightarrow> real \<Rightarrow> string" where
  "generate_recommendation_explanation temp weather_condition humidity wind =
     (let e1 =
            (if str_in ''rain'' weather_condition \<or> str_in ''drizzle'' weather_condition then
               (if temp > 20
                then ''The warm rain means you'll want waterproof outer layers that are still breathable. ''
                else ''Stay dry and warm with waterproof, insulated clothing. '')
             else if str_in ''snow'' weather_condition then
               ''Protect against snow with waterproof, insulated layers. Focus on keeping extremities warm. ''
             else if str_in ''clear'' weather_condition then
               (if temp > 28
                then ''It's hot and sunny! Wear lightweight, breathable fabrics and protect against UV exposure. ''
                else if temp > 20
                then ''Pleasant temperatures, but still protect against UV rays if you're outside for long periods. ''
                else if temp < 5
                then ''Clear but very cold! Layering is essential with a windproof outer layer. ''
                else [])
             else if str_in ''cloud'' weather_condition then
               (if temp > 25 then ''Overcast but warm. Light clothing is still appropriate. ''
                else if temp < 10
                then ''Gray and cold - focus on insulation with a medium-weight outer layer. ''
                else [])
             else []);
          e2 = (if wind > 8
                then e1 @ ''Secure any loose items of clothing due to strong winds. ''
                else e1);
          e3 = (if humidity > 80 \<and> temp > 25
                then e2 @ ''High humidity will make it feel hotter than it is - dress lighter than the temperature suggests. ''
                else e2)
      in if temp < 0
         then e3 @ ''Risk of frostbite for exposed skin - cover up completely when outdoors. ''
         else e3)"

record slot_recommendation =
  r_time :: string
  r_top :: string
  r_bottom :: string
  r_accessories :: "string list"
  r_umbrella :: bool

record recommendations =
  rec_current :: slot_recommendation
  rec_explanation :: string
  rec_morning :: "slot_recommendation option"
  rec_evening :: "slot_recommendation option"

text \<open>The dictionary literal written three times in \<^verbatim>\<open>get_clothing_recommendations\<close>,
  for the labels \<^verbatim>\<open>Now\<close>, \<^verbatim>\<open>Morning\<close> and \<^verbatim>\<open>Evening\<close>.\<close>

definition slot_dict :: "string \<Rightarrow> real \<Rightarrow> string \<Rightarrow> real \<Rightarrow> slot_recommendation" where
  "slot_dict label temp weather wind =
     \<lparr>r_time = label,
      r_top = recommend_top temp weather,
      r_bottom = recommend_bottom temp,
      r_accessories = recommend_accessories temp weather wind,
      r_umbrella = (str_in ''rain'' weather \<or> str_in ''drizzle'' weather)\<rparr>"

text \<open>The loop that looks for \<^verbatim>\<open>morning_data\<close> and \<^verbatim>\<open>evening_data\<close>.\<close>

fun find_morning_evening ::
    "env \<Rightarrow> real \<Rightarrow> forecast_item list \<Rightarrow> forecast_item option \<Rightarrow> forecast_item option
       \<Rightarrow> exc + (forecast_item option \<times> forecast_item option)" where
  "find_morning_evening env current_time [] morning_data evening_data =
     Inr (morning_data, evening_data)"
| "find_morning_evening env current_time (item # items) morning_data evening_data =
     (case strptime env (f_dt_txt item) of
        Inl m \<Rightarrow> Inl (ValueError m)
      | Inr forecast_time \<Rightarrow>
          if date_of forecast_time \<noteq> date_of current_time
          then find_morning_evening env current_time items morning_data evening_data
          else
            (let morning1 =
                   (if 8 \<le> hour_of forecast_time \<and> hour_of forecast_time \<le> 10
                       \<and> morning_data = None
                    then Some item else morning_data);
                 evening1 =
                   (if 18 \<le> hour_of forecast_time \<and> hour_of forecast_time \<le> 20
                       \<and> evening_data = None
                    then Some item else evening_data)
             in find_morning_evening env current_time items morning1 evening1))"

definition AIWeatherService_get_clothing_recommendations ::
    "env \<Rightarrow> string \<Rightarrow> state \<Rightarrow> (exc + recommendations) \<times> state" where
  "AIWeatherService_get_clothing_recommendations env city s =
     (let current_url = ''https://api.openweathermap.org/data/2.5/weather'';
          (response, s1) = requests_get_weather env current_url (query_params env city) s;
          (result, s4) =
            (case response of
               Inl e \<Rightarrow> (Inl (RequestException e), s1)
             | Inr current_data \<Rightarrow>
                 (let forecast_url = ''https://api.openweathermap.org/data/2.5/forecast'';
                      (forecast_response, s2) =
                        requests_get_forecast env forecast_url (query_params env city) s1
                  in case forecast_response of
                       Inl e \<Rightarrow> (Inl (RequestException e), s2)
                     | Inr forecast_data \<Rightarrow>
                         (let current_temp = c_temp current_data;
                              current_weather = lower (c_weather_main current_data);
                              current_humidity = c_humidity current_data
                          in case wind_item current_data ''speed'' wind_speed of
                               Inl e \<Rightarrow> (Inl e, s2)
                             | Inr current_wind_speed \<Rightarrow>
                                 (let current_time = datetime_now env (tick s2);
                                      s3 = s2\<lparr>tick := Suc (tick s2)\<rparr>
                                  in case find_morning_evening env current_time
                                            (fc_list forecast_data) None None of
                                       Inl e \<Rightarrow> (Inl e, s3)
                                     | Inr (morning_data, evening_data) \<Rightarrow>
                                         (Inr \<lparr>rec_current =
                                                 slot_dict ''Now'' current_temp current_weather
                                                   current_wind_speed,
                                               rec_explanation =
                                                 generate_recommendation_explanation current_temp
                                                   current_weather current_humidity current_wind_speed,
                                               rec_morning =
                                                 (case morning_data of
                                                    Some m \<Rightarrow>
                                                      if hour_of current_time < 12
                                                      then Some (slot_dict ''Morning'' (f_temp m)
                                                                   (lower (f_weather_main m))
                                                                   (f_wind_speed m))
                                                      else None
                                                  | None \<Rightarrow> None),
                                               rec_evening =
                                                 (case evening_data of
                                                    Some ev \<Rightarrow>
                                                      if hour_of current_time < 18
                                                      then Some (slot_dict ''Evening'' (f_temp ev)
                                                                   (lower (f_weather_main ev))
                                                                   (f_wind_speed ev))
                                                      else None
                                                  | None \<Rightarrow> None)\<rparr>,
                                          s3)))))
      in case result of
           Inr recs \<Rightarrow> (Inr recs, s4)
         | Inl e \<Rightarrow>
             (Inl (Exception (''Failed to generate clothing recommendations: '' @ str_exc e)),
              logger_log ERROR [Lit (''Error generating clothing recommendations for '' @ city
                                     @ '': '' @ str_exc e)] s4))"

subsection \<open>\<^verbatim>\<open>app.py\<close>\<close>

text \<open>A request: the query parameters \<^verbatim>\<open>request.args\<close> and the parsed body
  \<^verbatim>\<open>request.json\<close>, any JSON value (\<open>JNull\<close> for the body \<^verbatim>\<open>null\<close>). A body that is no
  JSON at all is refused by Flask before the handler runs.\<close>

record request =
  req_args :: "(string \<times> string) list"
  req_json :: json

text \<open>What an endpoint returns: the value given to \<^verbatim>\<open>jsonify\<close>, and the status.\<close>

datatype body =
    JsonError string
  | JsonValue pyval
  | JsonAll pyval pyval
  | JsonAlerts "alert list"
  | JsonRecommendations recommendations

type_synonym response = "body \<times> nat"

text \<open>The two statements every endpoint runs when \<^verbatim>\<open>city\<close> is missing.\<close>

definition city_required :: "state \<Rightarrow> response \<times> state" where
  "city_required s =
     ((JsonError ''City parameter is required'', 400),
      logger_log WARNING [Lit ''API request missing city parameter''] s)"

text \<open>The \<^verbatim>\<open>except Exception as e\<close> block of every endpoint, up to the message prefix.\<close>

definition app_except :: "env \<Rightarrow> string \<Rightarrow> exc \<Rightarrow> state \<Rightarrow> response \<times> state" where
  "app_except env log_prefix e s =
     (let s1 = logger_log ERROR [Lit (log_prefix @ str_exc e)] s;
          s2 = logger_log DEBUG [Lit (format_exc env e)] s1
      in ((JsonError (str_exc e), 500), s2))"

definition app_get_current_weather :: "env \<Rightarrow> request \<Rightarrow> state \<Rightarrow> response \<times> state" where
  "app_get_current_weather env request s =
     (case map_of (req_args request) ''city'' of
        None \<Rightarrow> city_required s
      | Some city \<Rightarrow>
          if city = [] then city_required s
          else
            (let s1 = logger_log INFO [Lit (''Fetching current weather for '' @ city)] s
             in case WeatherService_get_current_weather env city s1 of
                  (Inr weather_data, s2) \<Rightarrow> ((JsonValue weather_data, 200), s2)
                | (Inl e, s2) \<Rightarrow>
                    app_except env (''Error fetching current weather for '' @ city @ '': '') e s2))"

definition app_get_forecast :: "env \<Rightarrow> request \<Rightarrow> state \<Rightarrow> response \<times> state" where
  "app_get_forecast env request s =
     (case map_of (req_args request) ''city'' of
        None \<Rightarrow> city_required s
      | Some city \<Rightarrow>
          if city = [] then city_required s
          else
            (let s1 = logger_log INFO [Lit (''Fetching 5-day forecast for '' @ city)] s
             in case WeatherService_get_forecast env city s1 of
                  (Inr forecast_data, s2) \<Rightarrow> ((JsonValue forecast_data, 200), s2)
                | (Inl e, s2) \<Rightarrow>
                    app_except env (''Error fetching forecast for '' @ city @ '': '') e s2))"

definition app_get_all_weather_data :: "env \<Rightarrow> request \<Rightarrow> state \<Rightarrow> response \<times> state" where
  "app_get_all_weather_data env request s =
     (case map_of (req_args request) ''city'' of
        None \<Rightarrow> city_required s
      | Some city \<Rightarrow>
          if city = [] then city_required s
          else
            (let s1 = logger_log INFO [Lit (''Fetching all weather data for '' @ city)] s
             in case WeatherService_get_current_weather env city s1 of
                  (Inl e, s2) \<Rightarrow>
                    app_except env (''Error fetching weather data for '' @ city @ '': '') e s2
                | (Inr current, s2) \<Rightarrow>
                    (case WeatherService_get_forecast env city s2 of
                       (Inl e, s3) \<Rightarrow>
                         app_except env (''Error fetching weather data for '' @ city @ '': '') e s3
                     | (Inr forecast, s3) \<Rightarrow> ((JsonAll current forecast, 200), s3))))"

definition app_get_enhanced_forecast :: "env \<Rightarrow> request \<Rightarrow> state \<Rightarrow> response \<times> state" where
  "app_get_enhanced_forecast env request s =
     (case map_of (req_args request) ''city'' of
        None \<Rightarrow> city_required s
      | Some city \<Rightarrow>
          if city = [] then city_required s
          else
            (let s1 = logger_log INFO [Lit (''Fetching AI-enhanced forecast for '' @ city)] s
             in case AIWeatherService_get_enhanced_forecast env city s1 of
                  (Inr forecast_data, s2) \<Rightarrow> ((JsonValue forecast_data, 200), s2)
                | (Inl e, s2) \<Rightarrow>
                    app_except env (''Error fetching AI-enhanced forecast for '' @ city @ '': '') e s2))"

definition app_get_clothing_recommendations :: "env \<Rightarrow> request \<Rightarrow> state \<Rightarrow> response \<times> state" where
  "app_get_clothing_recommendations env request s =
     (case map_of (req_args request) ''city'' of
        None \<Rightarrow> city_required s
      | Some city \<Rightarrow>
          if city = [] then city_required s
          else
            (let s1 = logger_log INFO [Lit (''Generating clothing recommendations for '' @ city)] s
             in case AIWeatherService_get_clothing_recommendations env city s1 of
                  (Inr recs, s2) \<Rightarrow> ((JsonRecommendations recs, 200), s2)
                | (Inl e, s2) \<Rightarrow>
                    app_except env (''Error generating clothing recommendations for '' @ city
                                    @ '': '') e s2))"

text \<open>The handlers registered for the statuses 404 and 500.\<close>

definition not_found :: "string \<Rightarrow> state \<Rightarrow> response \<times> state" where
  "not_found path s =
     ((JsonError ''Not found'', 404), logger_log WARNING [Lit (''404 error: '' @ path)] s)"

definition server_error :: "string \<Rightarrow> state \<Rightarrow> response \<times> state" where
  "server_error error s =
     ((JsonError ''Internal server error'', 500),
      logger_log ERROR [Lit (''500 error: '' @ error)] s)"

text \<open>An exception raised in an endpoint outside its \<^verbatim>\<open>try\<close> block: Flask answers through
  the handler of status 500.\<close>

definition uncaught :: "env \<Rightarrow> exc \<Rightarrow> state \<Rightarrow> response \<times> state" where
  "uncaught env e s = server_error (str_internal_server_error env) s"

text \<open>\<^verbatim>\<open>f"{city}"\<close> for the value \<^verbatim>\<open>data.get('city')\<close>.\<close>

definition str_json :: "env \<Rightarrow> json \<Rightarrow> string" where
  "str_json env v = (case v of JStr s \<Rightarrow> s | _ \<Rightarrow> str_of_json env v)"

text \<open>One setting of \<^verbatim>\<open>preferences\<close>: absent, a number, or something else.\<close>

definition number_setting :: "(string \<times> json) list \<Rightarrow> string \<Rightarrow> real option option" where
  "number_setting kvs key =
     (case map_of kvs key of
        None \<Rightarrow> Some None
      | Some (JInt n) \<Rightarrow> Some (Some (real_of_int n))
      | Some (JFloat x) \<Rightarrow> Some (Some x)
      | Some _ \<Rightarrow> None)"

text \<open>The value \<^verbatim>\<open>data.get('preferences', {})\<close> as the dictionary of numbers the service
  reads, when it is one.\<close>

definition prefs_of_json :: "json \<Rightarrow> prefs option" where
  "prefs_of_json v =
     (case v of
        JObj kvs \<Rightarrow>
          (case (number_setting kvs ''rain_sensitivity'', number_setting kvs ''temp_sensitivity'',
                 number_setting kvs ''wind_sensitivity'', number_setting kvs ''alert_threshold'') of
             (Some r, Some t, Some w, Some a) \<Rightarrow>
               Some \<lparr>p_rain_sensitivity = r, p_temp_sensitivity = t,
                     p_wind_sensitivity = w, p_alert_threshold = a\<rparr>
           | _ \<Rightarrow> None)
      | _ \<Rightarrow> None)"

text \<open>The endpoint \<^verbatim>\<open>POST /api/weather/alerts\<close>. The test of the body and the two
  \<^verbatim>\<open>data.get\<close> stand before the \<^verbatim>\<open>try\<close> block, so what they raise is not caught.\<close>

definition app_get_personalized_alerts :: "env \<Rightarrow> request \<Rightarrow> state \<Rightarrow> response \<times> state" where
  "app_get_personalized_alerts env request s =
     (let data = req_json request
      in if \<not> json_truthy data then city_required s
         else
           (case json_contains ''city'' data of
              Inl e \<Rightarrow> uncaught env e s
            | Inr False \<Rightarrow> city_required s
            | Inr True \<Rightarrow>
                (case data of
                   JObj kvs \<Rightarrow>
                     (let city = (case map_of kvs ''city'' of Some v \<Rightarrow> v | None \<Rightarrow> JNull);
                          user_preferences =
                            (case map_of kvs ''preferences'' of Some v \<Rightarrow> v | None \<Rightarrow> JObj []);
                          s1 = logger_log INFO
                                 [Lit (''Generating personalized alerts for '' @ str_json env city)] s
                      in case (case (city, prefs_of_json user_preferences) of
                                 (JStr c, Some p) \<Rightarrow>
                                   AIWeatherService_get_personalized_alerts env c p s1
                               | _ \<Rightarrow> untyped_alerts env city user_preferences s1) of
                           (Inr alerts, s2) \<Rightarrow> ((JsonAlerts alerts, 200), s2)
                         | (Inl e, s2) \<Rightarrow>
                             app_except env (''Error generating personalized alerts for ''
                                             @ str_json env city @ '': '') e s2)
                 | JArr xs \<Rightarrow>
                     uncaught env (AttributeError ([CHR 0x27] @ ''list' object has no attribute 'get'' @ [CHR 0x27])) s
                 | _ \<Rightarrow>
                     uncaught env (AttributeError ([CHR 0x27] @ ''str' object has no attribute 'get'' @ [CHR 0x27])) s)))"

subsection \<open>Sample inputs\<close>

text \<open>An environment whose clock advances by one second per reading and whose
  provider refuses every request, and a cache holding one entry stored at time 0.\<close>

definition sample_env :: env where
  "sample_env =
     \<lparr>api_key = ''0123456789abcdef'',
      time_time = (\<lambda>n. real n),
      datetime_now = (\<lambda>n. real n),
      http_weather = (\<lambda>n ps. Inl \<lparr>err_msg = ''503 Server Error'', err_response = None\<rparr>),
      http_forecast = (\<lambda>n ps. Inl \<lparr>err_msg = ''503 Server Error'', err_response = None\<rparr>),
      strptime = (\<lambda>txt. Inl ''unconverted data remains''),
      format_exc = (\<lambda>e. ''Traceback (most recent call last): '' @ str_exc e),
      str_of_json = (\<lambda>v. ''<value>''),
      str_internal_server_error = ''500 Internal Server Error: The server encountered an internal error and was unable to complete your request.'',
      untyped_alerts = (\<lambda>city user_preferences s.
        (Inl (TypeError ''unsupported operand''), s))\<rparr>"

definition sample_state :: state where
  "sample_state =
     \<lparr>cache = [(''k'', PyStr ''v'', 0)], expiry = 600, models = [], logs = [],
      requests = [], tick = 700\<rparr>"

definition sample_times :: "(string \<times> real) list" where
  "sample_times =
     [(''2024-06-01 09:00:00'', 32400), (''2024-06-01 12:00:00'', 43200),
      (''2024-06-01 18:00:00'', 64800), (''2024-06-01 23:00:00'', 82800),
      (''2024-06-04 12:00:00'', 302400)]"

definition sample_item :: "string \<Rightarrow> real \<Rightarrow> real \<Rightarrow> string \<Rightarrow> string \<Rightarrow> forecast_item" where
  "sample_item txt temp humidity main description =
     \<lparr>f_dt = 0, f_dt_txt = txt, f_temp = temp, f_feels_like = temp - 1,
      f_humidity = humidity, f_pressure = 1013, f_wind_speed = 3, f_wind_deg = 180,
      f_weather_main = main, f_weather_description = description,
      f_weather_icon = ''01d'', f_rain = None, f_ai_confidence = None\<rparr>"

definition sample_forecast :: forecast_data where
  "sample_forecast =
     \<lparr>fc_city_id = 2988507, fc_city_name = ''Paris'', fc_city_country = ''FR'',
      fc_city_timezone = 7200,
      fc_list = [sample_item ''2024-06-01 09:00:00'' 18 50 ''Clouds'' ''scattered clouds'',
                 sample_item ''2024-06-01 12:00:00'' 20 50 ''Clear'' ''clear sky'',
                 sample_item ''2024-06-01 23:00:00'' 15 50 ''Clear'' ''clear sky'',
                 sample_item ''2024-06-04 12:00:00'' 36 70 ''Clear'' ''clear sky''],
      fc_ai_enhanced = False\<rparr>"

definition parsing_env :: env where
  "parsing_env =
     \<lparr>api_key = ''0123456789abcdef'',
      time_time = (\<lambda>n. real n),
      datetime_now = (\<lambda>n. 43200),
      http_weather = (\<lambda>n ps. Inl \<lparr>err_msg = ''503 Server Error'', err_response = None\<rparr>),
      http_forecast = (\<lambda>n ps. Inr sample_forecast),
      strptime = (\<lambda>txt. case map_of sample_times txt of
                           Some t \<Rightarrow> Inr t
                         | None \<Rightarrow> Inl ''time data does not match format''),
      format_exc = (\<lambda>e. ''Traceback (most recent call last): '' @ str_exc e),
      str_of_json = (\<lambda>v. ''<value>''),
      str_internal_server_error = ''500 Internal Server Error: The server encountered an internal error and was unable to complete your request.'',
      untyped_alerts = (\<lambda>city user_preferences s.
        (Inl (TypeError ''unsupported operand''), s))\<rparr>"

definition sample_enhanced :: forecast_data where
  "sample_enhanced =
     sample_forecast
       \<lparr>fc_list :=
          [(sample_item ''2024-06-01 09:00:00'' 18 50 ''Clouds'' ''scattered clouds'')
             \<lparr>f_ai_confidence := Some 0.965\<rparr>,
           (sample_item ''2024-06-01 12:00:00'' 20 50 ''Clear'' ''clear sky'')
             \<lparr>f_temp := 20.5, f_feels_like := 19.5, f_ai_confidence := Some 0.95\<rparr>,
           (sample_item ''2024-06-01 23:00:00'' 15 50 ''Clear'' ''clear sky'')
             \<lparr>f_temp := 14.7, f_feels_like := 13.7, f_ai_confidence := Some 0.895\<rparr>,
           (sample_item ''2024-06-04 12:00:00'' 36 70 ''Clear'' ''clear sky'')
             \<lparr>f_temp := 36.5, f_feels_like := 35.5, f_ai_confidence := Some 0.6\<rparr>],
        fc_ai_enhanced := True\<rparr>"

definition sample_current :: current_data where
  "sample_current =
     \<lparr>c_name = ''Paris'', c_country = ''FR'', c_temp = 36, c_feels_like = 39,
      c_humidity = 70, c_pressure = 1009,
      c_wind = Some \<lparr>wind_speed = Some 12, wind_deg = Some 200\<rparr>,
      c_weather_main = ''Thunderstorm'',
      c_weather_description = ''thunderstorm with heavy rain'',
      c_weather_icon = ''11d'', c_dt = 1717236000, c_alerts = None\<rparr>"

definition serving_env :: env where
  "serving_env = parsing_env\<lparr>http_weather := (\<lambda>n ps. Inr sample_current)\<rparr>"

definition no_prefs :: prefs where
  "no_prefs = \<lparr>p_rain_sensitivity = None, p_temp_sensitivity = None,
                p_wind_sensitivity = None, p_alert_threshold = None\<rparr>"

definition leaky_env :: env where
  "leaky_env =
     \<lparr>api_key = ''0123456789abcdef'',
      time_time = (\<lambda>n. real n),
      datetime_now = (\<lambda>n. 43200),
      http_weather = (\<lambda>n ps. Inl
        \<lparr>err_msg = ''401 Client Error: Unauthorized for url: https://api.openweathermap.org/data/2.5/weather?q=Paris&appid=0123456789abcdef&units=metric'',
         err_response = None\<rparr>),
      http_forecast = (\<lambda>n ps. Inl
        \<lparr>err_msg = ''401 Client Error: Unauthorized for url: https://api.openweathermap.org/data/2.5/forecast?q=Paris&appid=0123456789abcdef&units=metric'',
         err_response = None\<rparr>),
      strptime = (\<lambda>txt. Inl ''time data does not match format''),
      format_exc = (\<lambda>e. ''Traceback (most recent call last): '' @ str_exc e),
      str_of_json = (\<lambda>v. ''<value>''),
      str_internal_server_error = ''500 Internal Server Error: The server encountered an internal error and was unable to complete your request.'',
      untyped_alerts = (\<lambda>city user_preferences s.
        (Inl (TypeError ''unsupported operand''), s))\<rparr>"

definition empty_request :: request where
  "empty_request = \<lparr>req_args = [], req_json = JNull\<rparr>"

definition number_body_request :: request where
  "number_body_request = \<lparr>req_args = [], req_json = JInt 5\<rparr>"

definition paris_request :: request where
  "paris_request = \<lparr>req_args = [(''city'', ''Paris'')], req_json = JNull\<rparr>"

definition falsy_state :: state where
  "falsy_state =
     \<lparr>cache = [(''current_weather_Paris'', PyDict [], 0), (''forecast_Paris'', PyNum 0, 0)],
      expiry = 600, models = [], logs = [], requests = [], tick = 5\<rparr>"

section \<open>Properties\<close>

subsection \<open>The cache\<close>

lemma logger_log_simps [simp]:
  "cache (logger_log l m s) = cache s" "expiry (logger_log l m s) = expiry s"
  "tick (logger_log l m s) = tick s" "requests (logger_log l m s) = requests s"
  "models (logger_log l m s) = models s" "logs (logger_log l m s) = logs s @ [(l, m)]"
  by (simp_all add: logger_log_def)

lemma key_notin_delete: "k \<notin> fst ` set (AList.delete k al)"
  by (induction al) (auto simp: AList.delete_eq)

text \<open>
  Claim C4. For every key \<open>k\<close> and value \<open>v\<close>: \<^verbatim>\<open>get(k)\<close> right after \<^verbatim>\<open>set(k, v)\<close>,
  that is with less than the TTL elapsed between the two clock readings, returns
  \<open>v\<close>; and whenever \<^verbatim>\<open>get(k)\<close> finds an entry whose age is at least the TTL, it
  returns \<^verbatim>\<open>None\<close> and the entry is gone from the dictionary afterwards, without any
  call of \<^verbatim>\<open>cleanup()\<close>.
\<close>

theorem C4_set_get_and_lazy_expiry:
  "(time_time env (Suc (tick s)) - time_time env (tick s) < expiry s \<longrightarrow>
      fst (CacheService_get env k (CacheService_set env k v s)) = v)
   \<and> (map_of (cache s) k = Some (v, ts) \<and> time_time env (tick s) - ts \<ge> expiry s \<longrightarrow>
      fst (CacheService_get env k s) = PyNone
      \<and> k \<notin> fst ` set (cache (snd (CacheService_get env k s))))"
  using key_notin_delete [of k "cache s"]
  by (auto simp: CacheService_get_def CacheService_set_def Let_def update_conv' not_less)

theorem C4_witness:
  "(time_time sample_env (Suc (tick sample_state)) - time_time sample_env (tick sample_state)
      < expiry sample_state
    \<and> fst (CacheService_get sample_env ''k''
          (CacheService_set sample_env ''k'' (PyNum 7) sample_state)) = PyNum 7)
   \<and> (map_of (cache sample_state) ''k'' = Some (PyStr ''v'', 0)
    \<and> time_time sample_env (tick sample_state) - 0 \<ge> expiry sample_state
    \<and> fst (CacheService_get sample_env ''k'' sample_state) = PyNone
    \<and> ''k'' \<notin> fst ` set (cache (snd (CacheService_get sample_env ''k'' sample_state))))"
  using C4_set_get_and_lazy_expiry [of sample_env sample_state "''k''" "PyNum 7"]
    C4_set_get_and_lazy_expiry [of sample_env sample_state "''k''" "PyStr ''v''" 0]
  by (simp add: sample_env_def sample_state_def)

subsection \<open>The enhanced forecast\<close>

lemma hour_of_range: "0 \<le> hour_of t \<and> hour_of t \<le> 23"
  by (simp add: hour_of_def) 

lemma enhance_loop_Inr:
  "enhance_loop env items n = (Inr items', n') \<Longrightarrow>
     length items' = length items \<and> n' = n + length items \<and>
     (\<forall>i < length items. \<exists>dt. strptime env (f_dt_txt (items ! i)) = Inr dt
        \<and> items' ! i = enhance_item dt (datetime_now env (n + i)) (items ! i))"
proof (induction items arbitrary: n items' n')
  case Nil
  then show ?case by simp
next
  case (Cons item items)
  from Cons.prems obtain dt where dt: "strptime env (f_dt_txt item) = Inr dt"
    by (auto split: sum.splits)
  obtain r n1 where rec: "enhance_loop env items (Suc n) = (r, n1)"
    by (cases "enhance_loop env items (Suc n)") auto
  with Cons.prems dt obtain items1 where r: "r = Inr items1"
    and res: "items' = enhance_item dt (datetime_now env n) item # items1" "n' = n1"
    by (auto split: sum.splits)
  from Cons.IH [OF rec [unfolded r]] have IH:
    "length items1 = length items" "n1 = Suc n + length items"
    "\<forall>i < length items. \<exists>dt. strptime env (f_dt_txt (items ! i)) = Inr dt
        \<and> items1 ! i = enhance_item dt (datetime_now env (Suc n + i)) (items ! i)"
    by auto
  show ?case
  proof (intro conjI allI impI)
    show "length items' = length (item # items)" using res IH by simp
    show "n' = n + length (item # items)" using res IH by simp
    fix i assume "i < length (item # items)"
    then show "\<exists>dt. strptime env (f_dt_txt ((item # items) ! i)) = Inr dt
        \<and> items' ! i = enhance_item dt (datetime_now env (n + i)) ((item # items) ! i)"
      using dt res IH(3) by (cases i) auto
  qed
qed

lemma enhance_loop_total:
  "(\<forall>item \<in> set items. \<exists>dt. strptime env (f_dt_txt item) = Inr dt) \<Longrightarrow>
     \<exists>items'. enhance_loop env items n = (Inr items', n + length items)"
proof (induction items arbitrary: n)
  case Nil
  then show ?case by simp
next
  case (Cons item items)
  then obtain dt where dt: "strptime env (f_dt_txt item) = Inr dt" by auto
  from Cons obtain items1 where "enhance_loop env items (Suc n) = (Inr items1, Suc n + length items)"
    by fastforce
  with dt show ?case by simp
qed

text \<open>The enhancement returns a forecast whenever every \<^verbatim>\<open>dt_txt\<close> of the answer parses.\<close>

lemma enhance_forecast_with_ai_total:
  assumes "\<forall>item \<in> set (fc_list forecast_data). \<exists>dt. strptime env (f_dt_txt item) = Inr dt"
  shows "\<exists>enhanced_data. fst (enhance_forecast_with_ai env city forecast_data s) = Inr enhanced_data"
proof -
  define n where "n = tick (if city \<notin> set (models s) then s\<lparr>models := models s @ [city]\<rparr> else s)"
  from enhance_loop_total [OF assms, of n]
  obtain items where "enhance_loop env (fc_list forecast_data) n
      = (Inr items, n + length (fc_list forecast_data))"
    by blast
  then show ?thesis
    by (simp add: enhance_forecast_with_ai_def Let_def n_def)
qed

lemma enhance_forecast_with_ai_Inr:
  assumes "fst (enhance_forecast_with_ai env city forecast_data s) = Inr enhanced_data"
      and "i < length (fc_list forecast_data)"
  shows "length (fc_list enhanced_data) = length (fc_list forecast_data)
     \<and> (\<exists>dt. strptime env (f_dt_txt (fc_list forecast_data ! i)) = Inr dt
          \<and> fc_list enhanced_data ! i
              = enhance_item dt (datetime_now env (tick s + i)) (fc_list forecast_data ! i))"
proof -
  obtain r n where loop: "enhance_loop env (fc_list forecast_data) (tick s) = (r, n)"
    by (cases "enhance_loop env (fc_list forecast_data) (tick s)") auto
  with assms(1) have r: "r = Inr (fc_list enhanced_data)"
    by (auto simp: enhance_forecast_with_ai_def Let_def split: sum.splits if_splits)
  from enhance_loop_Inr [OF loop [unfolded r]] assms(2) show ?thesis
    by blast
qed

text \<open>
  Claim C5. For every forecast interval, the enhancement adds exactly +0.5 degrees
  when the hour of the interval is in 10..16, exactly -0.3 degrees when it is in
  22..23 or 0..4, and nothing otherwise, and the same offset goes to the temperature
  and to the feels-like field of that interval.
\<close>

theorem C5_temperature_offset:
  assumes "fst (enhance_forecast_with_ai env city forecast_data s) = Inr enhanced_data"
      and "i < length (fc_list forecast_data)"
  shows "length (fc_list enhanced_data) = length (fc_list forecast_data)
     \<and> (\<exists>dt. strptime env (f_dt_txt (fc_list forecast_data ! i)) = Inr dt
          \<and> (let hour = hour_of dt;
                  offset = (if hour \<in> {10..16} then 0.5
                            else if hour \<in> {22..23} \<union> {0..4} then - 0.3
                            else 0)
              in f_temp (fc_list enhanced_data ! i) = f_temp (fc_list forecast_data ! i) + offset
               \<and> f_feels_like (fc_list enhanced_data ! i)
                   = f_feels_like (fc_list forecast_data ! i) + offset))"
proof -
  from enhance_forecast_with_ai_Inr [OF assms]
  obtain dt where len: "length (fc_list enhanced_data) = length (fc_list forecast_data)"
    and dt: "strptime env (f_dt_txt (fc_list forecast_data ! i)) = Inr dt"
    and item: "fc_list enhanced_data ! i
        = enhance_item dt (datetime_now env (tick s + i)) (fc_list forecast_data ! i)"
    by blast
  have "0 \<le> hour_of dt" "hour_of dt \<le> 23" using hour_of_range [of dt] by auto
  then have "temp_adjustment (hour_of dt)
      = (if hour_of dt \<in> {10..16} then 0.5
         else if hour_of dt \<in> {22..23} \<union> {0..4} then - 0.3 else 0)"
    by (auto simp: temp_adjustment_def)
  with len dt item show ?thesis
    by (simp add: enhance_item_def Let_def)
qed

lemmas sample_defs = parsing_env_def sample_forecast_def sample_enhanced_def sample_state_def
  sample_item_def sample_times_def

lemma sample_enhanced_run:
  "fst (enhance_forecast_with_ai parsing_env ''Paris'' sample_forecast sample_state)
     = Inr sample_enhanced"
  by (simp add: enhance_forecast_with_ai_def enhance_item_def hour_of_def temp_adjustment_def
        confidence_def sample_defs)

theorem C5_witness:
  "fst (enhance_forecast_with_ai parsing_env ''Paris'' sample_forecast sample_state)
     = Inr sample_enhanced
   \<and> (1::nat) < length (fc_list sample_forecast)
   \<and> strptime parsing_env (f_dt_txt (fc_list sample_forecast ! 1)) = Inr 43200
   \<and> hour_of 43200 = 12
   \<and> f_temp (fc_list sample_enhanced ! 1) = f_temp (fc_list sample_forecast ! 1) + 0.5
   \<and> f_feels_like (fc_list sample_enhanced ! 1)
       = f_feels_like (fc_list sample_forecast ! 1) + 0.5"
proof -
  have i: "(1::nat) < length (fc_list sample_forecast)"
    by (simp add: sample_defs)
  from C5_temperature_offset [OF sample_enhanced_run i] sample_enhanced_run i
  show ?thesis
    by (simp add: sample_defs hour_of_def)
qed

text \<open>
  Claim C6. For every forecast interval the attached confidence score is
  \<open>max (0.95 - hoursFromNow * 0.005) 0.6\<close>, where \<open>hoursFromNow\<close> is the interval's
  time minus the reading of the clock taken for that interval, in hours: 0.95 at 0 hours,
  exactly 0.6 from 70 hours on, and above 0.95 for a negative \<open>hoursFromNow\<close>, there
  being no upper clamp.
\<close>

theorem C6_confidence_score:
  assumes "fst (enhance_forecast_with_ai env city forecast_data s) = Inr enhanced_data"
      and "i < length (fc_list forecast_data)"
  shows "\<exists>dt. strptime env (f_dt_txt (fc_list forecast_data ! i)) = Inr dt
     \<and> (let hoursFromNow = (dt - datetime_now env (tick s + i)) / 3600;
             score = f_ai_confidence (fc_list enhanced_data ! i)
         in score = Some (max (0.95 - hoursFromNow * 0.005) 0.6)
          \<and> (hoursFromNow = 0 \<longrightarrow> score = Some 0.95)
          \<and> (hoursFromNow \<ge> 70 \<longrightarrow> score = Some 0.6)
          \<and> (hoursFromNow < 0 \<longrightarrow> (\<exists>c. score = Some c \<and> c > 0.95)))"
proof -
  from enhance_forecast_with_ai_Inr [OF assms]
  obtain dt where dt: "strptime env (f_dt_txt (fc_list forecast_data ! i)) = Inr dt"
    and item: "fc_list enhanced_data ! i
        = enhance_item dt (datetime_now env (tick s + i)) (fc_list forecast_data ! i)"
    by blast
  define h where "h = (dt - datetime_now env (tick s + i)) / 3600"
  have score: "f_ai_confidence (fc_list enhanced_data ! i) = Some (max (0.95 - h * 0.005) 0.6)"
    using item by (simp add: enhance_item_def confidence_def h_def Let_def)
  have "h = 0 \<Longrightarrow> max (0.95 - h * 0.005) 0.6 = (0.95::real)" by simp
  moreover have "h \<ge> 70 \<Longrightarrow> max (0.95 - h * 0.005) 0.6 = (0.6::real)" by (simp add: max_def)
  moreover have "h < 0 \<Longrightarrow> max (0.95 - h * 0.005) 0.6 > (0.95::real)" by (simp add: max_def)
  ultimately show ?thesis
    using dt score unfolding h_def Let_def by auto
qed

theorem C6_witness:
  "fst (enhance_forecast_with_ai parsing_env ''Paris'' sample_forecast sample_state)
     = Inr sample_enhanced
   \<and> (3::nat) < length (fc_list sample_forecast)
   \<and> strptime parsing_env (f_dt_txt (fc_list sample_forecast ! 3)) = Inr 302400
   \<and> (302400 - datetime_now parsing_env (tick sample_state + 3)) / 3600 = 72
   \<and> f_ai_confidence (fc_list sample_enhanced ! 3) = Some 0.6"
proof -
  have i: "(3::nat) < length (fc_list sample_forecast)"
    by (simp add: sample_defs)
  from C6_confidence_score [OF sample_enhanced_run i] sample_enhanced_run i
  show ?thesis
    by (simp add: sample_defs)
qed

subsection \<open>Personalized alerts\<close>

lemma sev_let:
  "(\<forall>a\<in>set t. a_severity a \<le> 1) \<Longrightarrow>
   (\<And>x. \<forall>a\<in>set x. a_severity a \<le> 1 \<Longrightarrow> \<forall>a\<in>set (f x). a_severity a \<le> 1) \<Longrightarrow>
   \<forall>a\<in>set (Let t f). a_severity a \<le> 1"
  by simp

lemma sev_step:
  "\<forall>a\<in>set xs. a_severity a \<le> 1 \<Longrightarrow> a_severity y \<le> 1 \<Longrightarrow>
   \<forall>a\<in>set (if c then xs @ [y] else xs). a_severity a \<le> 1"
  by simp

lemma check_severe_le_1:
  assumes "\<forall>a\<in>set alerts. a_severity a \<le> 1"
  shows "\<forall>a\<in>set (check_severe_weather_conditions alerts wc wd temp wind humidity p time).
           a_severity a \<le> 1"
  unfolding check_severe_weather_conditions_def
  by (intro sev_let sev_step assms) simp_all

lemma mono_let:
  "set alerts \<subseteq> set t \<Longrightarrow> (\<And>x. set alerts \<subseteq> set x \<Longrightarrow> set alerts \<subseteq> set (f x)) \<Longrightarrow>
   set alerts \<subseteq> set (Let t f)"
  by simp

lemma mono_step:
  "set alerts \<subseteq> set xs \<Longrightarrow> set alerts \<subseteq> set (if c then xs @ [y] else xs)"
  by auto

lemma check_severe_mono:
  "set alerts \<subseteq> set (check_severe_weather_conditions alerts wc wd temp wind humidity p time)"
  unfolding check_severe_weather_conditions_def
  by (intro mono_let mono_step) simp


lemma let_any: "(\<And>x. P (f x)) \<Longrightarrow> P (Let t f)"
  by simp

lemma heat_let:
  "(\<exists>a\<in>set t. a_type a = ''heatwave'' \<and> a_time a = time \<and> a_severity a = 0.95) \<Longrightarrow>
   (\<And>x. \<exists>a\<in>set x. a_type a = ''heatwave'' \<and> a_time a = time \<and> a_severity a = 0.95 \<Longrightarrow>
        \<exists>a\<in>set (f x). a_type a = ''heatwave'' \<and> a_time a = time \<and> a_severity a = 0.95) \<Longrightarrow>
   \<exists>a\<in>set (Let t f). a_type a = ''heatwave'' \<and> a_time a = time \<and> a_severity a = 0.95"
  by simp

lemma heat_step:
  "\<exists>a\<in>set xs. a_type a = ''heatwave'' \<and> a_time a = time \<and> a_severity a = 0.95 \<Longrightarrow>
   \<exists>a\<in>set (if c then xs @ [y] else xs).
      a_type a = ''heatwave'' \<and> a_time a = time \<and> a_severity a = 0.95"
  by auto

lemma check_severe_heatwave:
  assumes "temp > 35" and "humidity > 60"
  shows "\<exists>a \<in> set (check_severe_weather_conditions alerts wc wd temp wind humidity p time).
           a_type a = ''heatwave'' \<and> a_time a = time \<and> a_severity a = 0.95"
  unfolding check_severe_weather_conditions_def
  apply (rule let_any)
  apply (rule let_any)
  apply (rule heat_let)
   apply (simp add: assms)
  apply (intro heat_let heat_step)
     apply assumption+
  done

lemma day_alerts_mono: "set alerts \<subseteq> set (day_alerts p alerts day)"
  unfolding day_alerts_def
  apply (rule let_any, rule let_any, rule let_any, rule let_any)
  apply (rule mono_let)
   apply (rule check_severe_mono)
  apply (rule mono_let)
   apply (auto split: option.splits simp: Let_def)[1]
  apply (rule mono_let)
   apply (auto simp: Let_def)[1]
  apply (auto simp: Let_def)[1]
  done

lemma day_alerts_le_1:
  assumes "\<forall>a\<in>set alerts. a_severity a \<le> 1"
  shows "\<forall>a\<in>set (day_alerts p alerts day). a_severity a \<le> 1"
  unfolding day_alerts_def
  apply (rule let_any, rule let_any, rule let_any, rule let_any)
  apply (rule sev_let)
   apply (rule check_severe_le_1 [OF assms])
  apply (rule sev_let)
   apply (auto split: option.splits simp: Let_def)[1]
  apply (rule sev_let)
   apply (auto simp: Let_def)[1]
  apply (auto simp: Let_def)[1]
  done

lemma day_alerts_heatwave:
  assumes "f_temp day > 35" and "f_humidity day > 60"
  shows "\<exists>a \<in> set (day_alerts p alerts day).
           a_type a = ''heatwave'' \<and> a_time a = f_dt_txt day \<and> a_severity a = 0.95"
  unfolding day_alerts_def
  apply (rule let_any, rule let_any, rule let_any)
  apply (simp only: Let_def [of "f_dt_txt day"])
  apply (rule heat_let)
   apply (rule check_severe_heatwave [OF assms])
  apply (rule heat_let)
   apply (auto split: option.splits simp: Let_def)[1]
  apply (rule heat_let)
   apply (auto simp: Let_def)[1]
  apply (auto simp: Let_def)[1]
  done

lemma forecast_loop_mono: "set alerts \<subseteq> set (forecast_loop p alerts days)"
proof (induction days arbitrary: alerts)
  case Nil
  show ?case by simp
next
  case (Cons day days)
  have "set alerts \<subseteq> set (day_alerts p alerts day)" by (rule day_alerts_mono)
  also have "\<dots> \<subseteq> set (forecast_loop p (day_alerts p alerts day) days)" by (rule Cons.IH)
  finally show ?case by simp
qed

lemma forecast_loop_le_1:
  "\<forall>a\<in>set alerts. a_severity a \<le> 1 \<Longrightarrow>
   \<forall>a\<in>set (forecast_loop p alerts days). a_severity a \<le> 1"
proof (induction days arbitrary: alerts)
  case Nil
  then show ?case by simp
next
  case (Cons day days)
  from day_alerts_le_1 [OF Cons.prems] have "\<forall>a\<in>set (day_alerts p alerts day). a_severity a \<le> 1" .
  from Cons.IH [OF this] show ?case by simp
qed

lemma forecast_loop_heatwave:
  "day \<in> set days \<Longrightarrow> f_temp day > 35 \<Longrightarrow> f_humidity day > 60 \<Longrightarrow>
   \<exists>a \<in> set (forecast_loop p alerts days).
      a_type a = ''heatwave'' \<and> a_time a = f_dt_txt day \<and> a_severity a = 0.95"
proof (induction days arbitrary: alerts)
  case Nil
  then show ?case by simp
next
  case (Cons d days)
  show ?case
  proof (cases "day = d")
    case True
    from day_alerts_heatwave [OF Cons.prems(2,3), of p alerts]
    obtain a where "a \<in> set (day_alerts p alerts day)"
      "a_type a = ''heatwave'' \<and> a_time a = f_dt_txt day \<and> a_severity a = 0.95" by blast
    with forecast_loop_mono [of "day_alerts p alerts day" p days] True show ?thesis
      by auto
  next
    case False
    with Cons.prems have "day \<in> set days" by simp
    from Cons.IH [OF this Cons.prems(2,3)] show ?thesis by simp
  qed
qed

lemma get_personalized_alerts_Inr:
  assumes "fst (AIWeatherService_get_personalized_alerts env city p s) = Inr alerts"
  shows "\<exists>forecast s1 cur fl.
     AIWeatherService_get_enhanced_forecast env city s = (Inr forecast, s1)
     \<and> http_weather env (tick s1) (query_params env city) = Inr cur
     \<and> forecast_list_of forecast = Inr fl
     \<and> alerts = filter_and_sort (pref_get (p_alert_threshold p) 0.7) (generate_alerts p cur fl)"
  using assms
  by (auto simp: AIWeatherService_get_personalized_alerts_def requests_get_weather_def Let_def
        split: prod.splits sum.splits)

lemma filter_and_sort_props:
  "mset (filter_and_sort thr generated) = filter_mset (\<lambda>a. a_severity a \<ge> thr) (mset generated)
   \<and> sorted_wrt (\<lambda>a b. a_severity a \<ge> a_severity b) (filter_and_sort thr generated)
   \<and> (\<forall>a\<in>set (filter_and_sort thr generated). a_severity a \<ge> thr)"
proof -
  have "sorted (map (\<lambda>x. - a_severity x) (filter_and_sort thr generated))"
    unfolding filter_and_sort_def by (rule sorted_sort_key)
  then have "sorted_wrt (\<lambda>a b. a_severity a \<ge> a_severity b) (filter_and_sort thr generated)"
    by (simp add: sorted_map)
  then show ?thesis
    by (simp add: filter_and_sort_def)
qed

text \<open>
  Claim C3. The list returned by \<^verbatim>\<open>get_personalized_alerts\<close> holds exactly the generated
  alerts whose severity is at least the user's \<^verbatim>\<open>alert_threshold\<close> (0.7 when the key is
  absent), each as often as it was generated, in non-increasing order of severity; no
  alert below the threshold is returned. The generated alerts are those of
  \<open>generate_alerts\<close> on the current-weather answer and the forecast list the call
  obtained.
\<close>

theorem C3_filtered_and_sorted:
  assumes "fst (AIWeatherService_get_personalized_alerts env city p s) = Inr alerts"
  shows "\<exists>forecast s1 cur fl.
     AIWeatherService_get_enhanced_forecast env city s = (Inr forecast, s1)
     \<and> http_weather env (tick s1) (query_params env city) = Inr cur
     \<and> forecast_list_of forecast = Inr fl
     \<and> (let generated = generate_alerts p cur fl;
             alert_threshold = pref_get (p_alert_threshold p) 0.7
         in mset alerts = filter_mset (\<lambda>a. a_severity a \<ge> alert_threshold) (mset generated)
          \<and> sorted_wrt (\<lambda>a b. a_severity a \<ge> a_severity b) alerts
          \<and> (\<forall>a\<in>set alerts. a_severity a \<ge> alert_threshold))"
proof -
  from get_personalized_alerts_Inr [OF assms]
  obtain forecast s1 cur fl where run:
    "AIWeatherService_get_enhanced_forecast env city s = (Inr forecast, s1)"
    "http_weather env (tick s1) (query_params env city) = Inr cur"
    "forecast_list_of forecast = Inr fl"
    and alerts: "alerts = filter_and_sort (pref_get (p_alert_threshold p) 0.7) (generate_alerts p cur fl)"
    by blast
  from filter_and_sort_props [of "pref_get (p_alert_threshold p) 0.7" "generate_alerts p cur fl"]
  have "let generated = generate_alerts p cur fl;
            alert_threshold = pref_get (p_alert_threshold p) 0.7
        in mset alerts = filter_mset (\<lambda>a. a_severity a \<ge> alert_threshold) (mset generated)
         \<and> sorted_wrt (\<lambda>a b. a_severity a \<ge> a_severity b) alerts
         \<and> (\<forall>a\<in>set alerts. a_severity a \<ge> alert_threshold)"
    unfolding alerts Let_def by simp
  with run show ?thesis by blast
qed

lemma sample_alerts_Inr:
  "fst (AIWeatherService_get_personalized_alerts serving_env ''Paris'' no_prefs
          (CacheService_init 600))
   = Inr (projr (fst (AIWeatherService_get_personalized_alerts serving_env ''Paris'' no_prefs
          (CacheService_init 600))))"
  by code_simp

lemma sample_generated_severities:
  "map a_severity (generate_alerts no_prefs sample_current (fc_list sample_enhanced))
     = [1, 0.9, 0.95, - (7/15), - 0.3, 0.95, 23/30]"
  by code_simp

theorem C3_witness:
  "fst (AIWeatherService_get_personalized_alerts serving_env ''Paris'' no_prefs
          (CacheService_init 600))
   = Inr (projr (fst (AIWeatherService_get_personalized_alerts serving_env ''Paris'' no_prefs
          (CacheService_init 600))))
   \<and> map a_severity (projr (fst (AIWeatherService_get_personalized_alerts serving_env ''Paris''
          no_prefs (CacheService_init 600)))) = [1, 0.95, 0.95, 0.9, 23/30]
   \<and> map a_severity (generate_alerts no_prefs sample_current (fc_list sample_enhanced))
       = [1, 0.9, 0.95, - (7/15), - 0.3, 0.95, 23/30]
   \<and> pref_get (p_alert_threshold no_prefs) 0.7 = 0.7"
proof -
  have returned: "map a_severity (projr (fst (AIWeatherService_get_personalized_alerts serving_env
      ''Paris'' no_prefs (CacheService_init 600)))) = [1, 0.95, 0.95, 0.9, 23/30]"
    by code_simp
  have thr: "pref_get (p_alert_threshold no_prefs) 0.7 = 0.7"
    by (simp add: pref_get_def no_prefs_def)
  from C3_filtered_and_sorted [OF sample_alerts_Inr] sample_alerts_Inr returned
    sample_generated_severities thr
  show ?thesis by blast
qed

lemma generate_alerts_le_1: "\<forall>a\<in>set (generate_alerts p cur fl). a_severity a \<le> 1"
proof -
  have "\<forall>a\<in>set (check_severe_weather_conditions [] (lower (c_weather_main cur))
      (lower (c_weather_description cur)) (c_temp cur)
      (case c_wind cur of None \<Rightarrow> 0 | Some w \<Rightarrow> (case wind_speed w of None \<Rightarrow> 0 | Some v \<Rightarrow> v))
      (c_humidity cur) p ''now''). a_severity a \<le> 1"
    by (rule check_severe_le_1) simp
  then show ?thesis
    unfolding generate_alerts_def Let_def
    by (intro forecast_loop_le_1) (auto simp: severe_alert_def split: option.splits)
qed

text \<open>
  Claim C7. When the four preference settings (taken with their defaults where absent)
  lie in [0,1], every alert of the list returned by \<^verbatim>\<open>get_personalized_alerts\<close> has its
  severity in [0,1], although a generated alert of the high-temperature rule can have a
  negative severity before the filter.
\<close>

theorem C7_returned_severity_in_unit_interval:
  assumes "fst (AIWeatherService_get_personalized_alerts env city p s) = Inr alerts"
      and "0 \<le> pref_get (p_rain_sensitivity p) 0.5 \<and> pref_get (p_rain_sensitivity p) 0.5 \<le> 1"
      and "0 \<le> pref_get (p_temp_sensitivity p) 0.5 \<and> pref_get (p_temp_sensitivity p) 0.5 \<le> 1"
      and "0 \<le> pref_get (p_wind_sensitivity p) 0.5 \<and> pref_get (p_wind_sensitivity p) 0.5 \<le> 1"
      and "0 \<le> pref_get (p_alert_threshold p) 0.7 \<and> pref_get (p_alert_threshold p) 0.7 \<le> 1"
  shows "\<forall>a\<in>set alerts. 0 \<le> a_severity a \<and> a_severity a \<le> 1"
proof -
  from get_personalized_alerts_Inr [OF assms(1)]
  obtain cur fl where
    alerts: "alerts = filter_and_sort (pref_get (p_alert_threshold p) 0.7) (generate_alerts p cur fl)"
    by blast
  show ?thesis
  proof
    fix a assume a: "a \<in> set alerts"
    then have "a \<in> set (generate_alerts p cur fl)"
      and "pref_get (p_alert_threshold p) 0.7 \<le> a_severity a"
      by (simp_all add: alerts filter_and_sort_def)
    with generate_alerts_le_1 [of p cur fl] assms(5)
    show "0 \<le> a_severity a \<and> a_severity a \<le> 1" by auto
  qed
qed

theorem C7_witness:
  "fst (AIWeatherService_get_personalized_alerts serving_env ''Paris'' no_prefs
          (CacheService_init 600))
   = Inr (projr (fst (AIWeatherService_get_personalized_alerts serving_env ''Paris'' no_prefs
          (CacheService_init 600))))
   \<and> pref_get (p_rain_sensitivity no_prefs) 0.5 = 0.5
   \<and> pref_get (p_temp_sensitivity no_prefs) 0.5 = 0.5
   \<and> pref_get (p_wind_sensitivity no_prefs) 0.5 = 0.5
   \<and> pref_get (p_alert_threshold no_prefs) 0.7 = 0.7
   \<and> list_all (\<lambda>a. 0 \<le> a_severity a \<and> a_severity a \<le> 1)
        (projr (fst (AIWeatherService_get_personalized_alerts serving_env ''Paris''
          no_prefs (CacheService_init 600))))
   \<and> - (7/15) \<in> set (map a_severity
          (generate_alerts no_prefs sample_current (fc_list sample_enhanced)))"
proof -
  have prefs: "pref_get (p_rain_sensitivity no_prefs) 0.5 = 0.5"
    "pref_get (p_temp_sensitivity no_prefs) 0.5 = 0.5"
    "pref_get (p_wind_sensitivity no_prefs) 0.5 = 0.5"
    "pref_get (p_alert_threshold no_prefs) 0.7 = 0.7"
    by (simp_all add: pref_get_def no_prefs_def)
  have neg: "- (7/15) \<in> set (map a_severity
      (generate_alerts no_prefs sample_current (fc_list sample_enhanced)))"
    unfolding sample_generated_severities by simp
  from C7_returned_severity_in_unit_interval [OF sample_alerts_Inr] prefs
  have "list_all (\<lambda>a. 0 \<le> a_severity a \<and> a_severity a \<le> 1)
        (projr (fst (AIWeatherService_get_personalized_alerts serving_env ''Paris''
          no_prefs (CacheService_init 600))))"
    by (simp add: list_all_iff)
  with sample_alerts_Inr prefs neg show ?thesis by blast
qed

lemma filter_and_sort_keeps:
  "a \<in> set generated \<Longrightarrow> a_severity a \<ge> thr \<Longrightarrow> a \<in> set (filter_and_sort thr generated)"
  by (simp add: filter_and_sort_def)

lemma generate_alerts_heatwave_now:
  assumes "c_temp cur > 35" and "c_humidity cur > 60"
  shows "\<exists>a\<in>set (generate_alerts p cur fl).
           a_type a = ''heatwave'' \<and> a_time a = ''now'' \<and> a_severity a = 0.95"
proof -
  define current_wind where "current_wind =
    (case c_wind cur of None \<Rightarrow> 0 | Some w \<Rightarrow> (case wind_speed w of None \<Rightarrow> 0 | Some v \<Rightarrow> v))"
  define alerts1 where "alerts1 = check_severe_weather_conditions []
      (lower (c_weather_main cur)) (lower (c_weather_description cur)) (c_temp cur)
      current_wind (c_humidity cur) p ''now''"
  define alerts2 where "alerts2 =
      (case c_alerts cur of Some api_alerts \<Rightarrow> alerts1 @ map severe_alert api_alerts
       | None \<Rightarrow> alerts1)"
  from check_severe_heatwave [OF assms] obtain a where a: "a \<in> set alerts1"
    "a_type a = ''heatwave'' \<and> a_time a = ''now'' \<and> a_severity a = 0.95"
    unfolding alerts1_def by blast
  then have "a \<in> set alerts2" by (simp add: alerts2_def split: option.splits)
  with forecast_loop_mono [of alerts2 p "take 16 fl"]
  have "a \<in> set (forecast_loop p alerts2 (take 16 fl))" by blast
  moreover have "generate_alerts p cur fl = forecast_loop p alerts2 (take 16 fl)"
    unfolding generate_alerts_def alerts2_def alerts1_def current_wind_def Let_def ..
  ultimately show ?thesis using a(2) by auto
qed

lemma generate_alerts_heatwave_forecast:
  assumes "i < 16" and "i < length fl" and "f_temp (fl ! i) > 35" and "f_humidity (fl ! i) > 60"
  shows "\<exists>a\<in>set (generate_alerts p cur fl).
           a_type a = ''heatwave'' \<and> a_time a = f_dt_txt (fl ! i) \<and> a_severity a = 0.95"
proof -
  from assms(1,2) have "fl ! i \<in> set (take 16 fl)"
    by (metis in_set_conv_nth length_take min_less_iff_conj nth_take)
  from forecast_loop_heatwave [OF this assms(3,4)] show ?thesis
    by (simp add: generate_alerts_def Let_def)
qed

text \<open>
  Claim C2, as amended. For the current conditions and for each of the first 16 forecast
  intervals, a temperature strictly above 35 degrees together with a humidity above 60
  percent makes the rules generate a heat alert of severity 0.95 for that slot,
  whatever the preferences; the alert is in the returned list whenever the alert
  threshold is at most 0.95. At exactly 35 degrees no heat alert is generated.
\<close>

theorem C2_heat_alert_above_35:
  "(c_temp cur > 35 \<and> c_humidity cur > 60 \<longrightarrow>
      (\<exists>a\<in>set (generate_alerts p cur fl).
          a_type a = ''heatwave'' \<and> a_time a = ''now'' \<and> a_severity a = 0.95))
   \<and> (\<forall>i. i < 16 \<and> i < length fl \<and> f_temp (fl ! i) > 35 \<and> f_humidity (fl ! i) > 60 \<longrightarrow>
      (\<exists>a\<in>set (generate_alerts p cur fl).
          a_type a = ''heatwave'' \<and> a_time a = f_dt_txt (fl ! i) \<and> a_severity a = 0.95))
   \<and> (\<forall>a\<in>set (generate_alerts p cur fl).
        a_severity a = 0.95 \<and> pref_get (p_alert_threshold p) 0.7 \<le> 0.95 \<longrightarrow>
        a \<in> set (filter_and_sort (pref_get (p_alert_threshold p) 0.7) (generate_alerts p cur fl)))"
  using generate_alerts_heatwave_now [of cur p fl]
    generate_alerts_heatwave_forecast [of _ fl p cur]
    filter_and_sort_keeps [of _ "generate_alerts p cur fl" "pref_get (p_alert_threshold p) 0.7"]
  by auto

theorem C2_counterexample:
  "(35::real) \<ge> 35 \<and> (61::real) > 60
   \<and> check_severe_weather_conditions [] ''clear'' ''clear sky'' 35 3 61 no_prefs ''now'' = []"
  by code_simp

theorem C2_witness:
  "c_temp sample_current > 35 \<and> c_humidity sample_current > 60
   \<and> (3::nat) < 16 \<and> 3 < length (fc_list sample_enhanced)
   \<and> f_temp (fc_list sample_enhanced ! 3) > 35 \<and> f_humidity (fc_list sample_enhanced ! 3) > 60
   \<and> pref_get (p_alert_threshold no_prefs) 0.7 \<le> 0.95
   \<and> map (\<lambda>a. (a_type a, a_time a, a_severity a))
        (filter (\<lambda>a. a_type a = ''heatwave'')
           (filter_and_sort (pref_get (p_alert_threshold no_prefs) 0.7)
              (generate_alerts no_prefs sample_current (fc_list sample_enhanced))))
      = [(''heatwave'', ''now'', 0.95), (''heatwave'', ''2024-06-04 12:00:00'', 0.95)]"
proof -
  have "c_temp sample_current > 35 \<and> c_humidity sample_current > 60
   \<and> (3::nat) < 16 \<and> 3 < length (fc_list sample_enhanced)
   \<and> f_temp (fc_list sample_enhanced ! 3) > 35 \<and> f_humidity (fc_list sample_enhanced ! 3) > 60
   \<and> pref_get (p_alert_threshold no_prefs) 0.7 \<le> 0.95"
    by code_simp
  moreover have "map (\<lambda>a. (a_type a, a_time a, a_severity a))
        (filter (\<lambda>a. a_type a = ''heatwave'')
           (filter_and_sort (pref_get (p_alert_threshold no_prefs) 0.7)
              (generate_alerts no_prefs sample_current (fc_list sample_enhanced))))
      = [(''heatwave'', ''now'', 0.95), (''heatwave'', ''2024-06-04 12:00:00'', 0.95)]"
    by code_simp
  ultimately show ?thesis
    using C2_heat_alert_above_35 [of sample_current no_prefs "fc_list sample_enhanced"]
    by blast
qed

subsection \<open>Clothing recommendations\<close>

lemma recommend_top_clear_32:
  assumes "str_in ''clear'' wc" "\<not> str_in ''rain'' wc" "\<not> str_in ''drizzle'' wc"
    "\<not> str_in ''snow'' wc" "\<not> str_in ''cloud'' wc"
  shows "recommend_top 32 wc = ''Loose, light cotton t-shirt or linen shirt''"
  using assms by (simp add: recommend_top_def)

lemma recommend_accessories_clear_32:
  assumes "str_in ''clear'' wc"
  shows "{''UV-protective sunglasses'', ''SPF 30+ sunscreen'', ''Water bottle to stay hydrated''}
           \<subseteq> set (recommend_accessories 32 wc wind)"
  unfolding recommend_accessories_def
  apply (rule let_any, rule let_any, rule let_any, rule let_any, rule let_any)
  apply (simp add: Let_def assms)
  done

lemma clothing_slots:
  assumes "fst (AIWeatherService_get_clothing_recommendations env city s) = Inr recs"
  shows "(\<exists>temp wc wind. rec_current recs = slot_dict ''Now'' temp (lower wc) wind)
     \<and> (rec_morning recs = None
         \<or> (\<exists>temp wc wind. rec_morning recs = Some (slot_dict ''Morning'' temp (lower wc) wind)))
     \<and> (rec_evening recs = None
         \<or> (\<exists>temp wc wind. rec_evening recs = Some (slot_dict ''Evening'' temp (lower wc) wind)))"
  using assms
  unfolding AIWeatherService_get_clothing_recommendations_def Let_def
  by (auto split: prod.splits sum.splits option.splits if_splits; blast)

text \<open>
  Claim C8, as amended. In the recommendation for a time slot: at a temperature of 32
  with a condition text that contains "clear" and none of "rain", "drizzle", "snow" and
  "cloud", the top is the loose, light cotton option; at 32 with a condition text that
  contains "clear", the accessories include the sunglasses, the sunscreen and the water
  bottle; and whenever the condition text contains "rain" or "drizzle" the umbrella flag
  is true. Every slot that \<^verbatim>\<open>get_clothing_recommendations\<close> returns is such a
  recommendation, built from a lower-cased condition text.
\<close>

theorem C8_clothing_rules:
  "(str_in ''clear'' wc \<and> \<not> str_in ''rain'' wc \<and> \<not> str_in ''drizzle'' wc
      \<and> \<not> str_in ''snow'' wc \<and> \<not> str_in ''cloud'' wc \<longrightarrow>
      r_top (slot_dict label 32 wc wind) = ''Loose, light cotton t-shirt or linen shirt'')
   \<and> (str_in ''clear'' wc \<longrightarrow>
      {''UV-protective sunglasses'', ''SPF 30+ sunscreen'', ''Water bottle to stay hydrated''}
        \<subseteq> set (r_accessories (slot_dict label 32 wc wind)))
   \<and> (str_in ''rain'' wc \<or> str_in ''drizzle'' wc \<longrightarrow> r_umbrella (slot_dict label temp wc wind))
   \<and> (fst (AIWeatherService_get_clothing_recommendations env city s) = Inr recs \<longrightarrow>
      (\<exists>temp wc wind. rec_current recs = slot_dict ''Now'' temp (lower wc) wind)
      \<and> (rec_morning recs = None
          \<or> (\<exists>temp wc wind. rec_morning recs = Some (slot_dict ''Morning'' temp (lower wc) wind)))
      \<and> (rec_evening recs = None
          \<or> (\<exists>temp wc wind. rec_evening recs = Some (slot_dict ''Evening'' temp (lower wc) wind))))"
  using recommend_top_clear_32 [of wc] recommend_accessories_clear_32 [of wc wind]
    clothing_slots [of env city s recs]
  by (simp add: slot_dict_def)

theorem C8_counterexample:
  "str_in ''clear'' ''rain, clearing later''
   \<and> recommend_top 32 ''rain, clearing later''
       = ''Light waterproof jacket with a breathable t-shirt''"
  by code_simp

theorem C8_witness:
  "str_in ''clear'' ''clear'' \<and> \<not> str_in ''rain'' ''clear'' \<and> \<not> str_in ''drizzle'' ''clear''
   \<and> \<not> str_in ''snow'' ''clear'' \<and> \<not> str_in ''cloud'' ''clear''
   \<and> r_top (slot_dict ''Now'' 32 ''clear'' 3) = ''Loose, light cotton t-shirt or linen shirt''
   \<and> r_accessories (slot_dict ''Now'' 32 ''clear'' 3)
       = [''Breathable hat or cap for sun protection'', ''UV-protective sunglasses'',
          ''SPF 30+ sunscreen'', ''Water bottle to stay hydrated'']
   \<and> str_in ''rain'' ''light rain''
   \<and> r_umbrella (slot_dict ''Now'' 12 ''light rain'' 3)
   \<and> fst (AIWeatherService_get_clothing_recommendations serving_env ''Paris'' (CacheService_init 600))
       = Inr (projr (fst (AIWeatherService_get_clothing_recommendations serving_env ''Paris''
                (CacheService_init 600))))
   \<and> rec_current (projr (fst (AIWeatherService_get_clothing_recommendations serving_env ''Paris''
                (CacheService_init 600))))
       = slot_dict ''Now'' 36 (lower ''Thunderstorm'') 12"
proof -
  have ev: "str_in ''clear'' ''clear'' \<and> \<not> str_in ''rain'' ''clear'' \<and> \<not> str_in ''drizzle'' ''clear''
   \<and> \<not> str_in ''snow'' ''clear'' \<and> \<not> str_in ''cloud'' ''clear''
   \<and> r_accessories (slot_dict ''Now'' 32 ''clear'' 3)
       = [''Breathable hat or cap for sun protection'', ''UV-protective sunglasses'',
          ''SPF 30+ sunscreen'', ''Water bottle to stay hydrated'']
   \<and> str_in ''rain'' ''light rain''"
    by code_simp
  have run: "fst (AIWeatherService_get_clothing_recommendations serving_env ''Paris'' (CacheService_init 600))
       = Inr (projr (fst (AIWeatherService_get_clothing_recommendations serving_env ''Paris''
                (CacheService_init 600))))"
    by code_simp
  have cur: "rec_current (projr (fst (AIWeatherService_get_clothing_recommendations serving_env ''Paris''
                (CacheService_init 600))))
       = slot_dict ''Now'' 36 (lower ''Thunderstorm'') 12"
    by code_simp
  from C8_clothing_rules [where wc="''clear''" and label="''Now''" and wind=3 and temp=12]
    C8_clothing_rules [where wc="''light rain''" and label="''Now''" and wind=3 and temp=12
      and env=serving_env and city="''Paris''" and s="CacheService_init 600"
      and recs="projr (fst (AIWeatherService_get_clothing_recommendations serving_env ''Paris''
                (CacheService_init 600)))"]
    ev run cur
  show ?thesis by simp
qed

subsection \<open>The HTTP endpoints\<close>

text \<open>What holds of the claim: without \<^verbatim>\<open>city\<close> in the query string the five GET
  endpoints, and with a falsy body or a body in which \<^verbatim>\<open>'city' in data\<close> is false the
  POST endpoint, answer with status 400 and the body
  \<^verbatim>\<open>{"error": "City parameter is required"}\<close>; the state afterwards differs only by the one
  warning logged: no HTTP request is sent, the clock is not read and the cache is neither
  read nor written.\<close>

lemma post_without_city:
  assumes "\<not> json_truthy (req_json request) \<or> json_contains ''city'' (req_json request) = Inr False"
  shows "app_get_personalized_alerts env request s = city_required s"
  using assms by (auto simp: app_get_personalized_alerts_def Let_def)

lemma missing_city_is_400:
  "(map_of (req_args request) ''city'' = None \<longrightarrow>
      app_get_current_weather env request s = city_required s
      \<and> app_get_forecast env request s = city_required s
      \<and> app_get_all_weather_data env request s = city_required s
      \<and> app_get_enhanced_forecast env request s = city_required s
      \<and> app_get_clothing_recommendations env request s = city_required s)
   \<and> (\<not> json_truthy (req_json request) \<or> json_contains ''city'' (req_json request) = Inr False \<longrightarrow>
      app_get_personalized_alerts env request s = city_required s)
   \<and> fst (city_required s) = (JsonError ''City parameter is required'', 400)
   \<and> cache (snd (city_required s)) = cache s
   \<and> requests (snd (city_required s)) = requests s
   \<and> tick (snd (city_required s)) = tick s
   \<and> logs (snd (city_required s))
       = logs s @ [(WARNING, [Lit ''API request missing city parameter''])]"
  using post_without_city [of request env s]
  by (auto simp: app_get_current_weather_def app_get_forecast_def app_get_all_weather_data_def
        app_get_enhanced_forecast_def app_get_clothing_recommendations_def city_required_def)

lemma missing_city_examples:
  "fst (app_get_current_weather sample_env empty_request sample_state)
       = (JsonError ''City parameter is required'', 400)
   \<and> fst (app_get_personalized_alerts sample_env empty_request sample_state)
       = (JsonError ''City parameter is required'', 400)
   \<and> fst (app_get_personalized_alerts sample_env
             \<lparr>req_args = [], req_json = JObj [(''preferences'', JObj [])]\<rparr> sample_state)
       = (JsonError ''City parameter is required'', 400)
   \<and> requests (snd (app_get_personalized_alerts sample_env empty_request sample_state)) = []"
  using missing_city_is_400 [of empty_request sample_env sample_state]
    missing_city_is_400 [of "\<lparr>req_args = [], req_json = JObj [(''preferences'', JObj [])]\<rparr>"
      sample_env sample_state]
  by (simp add: empty_request_def sample_state_def)

text \<open>A truthy body that is a number or a boolean has no \<^verbatim>\<open>city\<close>, and the endpoint
  answers with status 500 whatever the number: the membership test raises.\<close>

lemma number_body_is_500:
  "n \<noteq> 0 \<Longrightarrow>
   app_get_personalized_alerts env \<lparr>req_args = args, req_json = JInt n\<rparr> s
     = server_error (str_internal_server_error env) s"
  by (simp add: app_get_personalized_alerts_def uncaught_def Let_def)

text \<open>
  Claim C9. The claim asks that on every weather endpoint a request whose \<^verbatim>\<open>city\<close>
  parameter is missing be answered with status 400 and an \<^verbatim>\<open>error\<close> body, without any
  upstream call or cache access. \<^verbatim>\<open>POST /api/weather/alerts\<close> does not do so for every
  body: on the body \<^verbatim>\<open>5\<close> (and on \<^verbatim>\<open>true\<close>) the test \<^verbatim>\<open>'city' not in data\<close> raises
  \<^verbatim>\<open>TypeError\<close> outside the \<^verbatim>\<open>try\<close> block, and on the body \<^verbatim>\<open>"velocity"\<close>, a string
  that contains \<^verbatim>\<open>city\<close>, \<^verbatim>\<open>data.get\<close> raises \<^verbatim>\<open>AttributeError\<close>; the answer is that of
  the handler of status 500. No request is sent and the cache is untouched there. The
  five GET endpoints, and the POST endpoint on a body that is null, empty or an object
  without the key, answer 400.
\<close>

theorem C9_non_object_body_is_500:
  "json_truthy (req_json number_body_request)
   \<and> fst (app_get_personalized_alerts sample_env number_body_request sample_state)
       = (JsonError ''Internal server error'', 500)
   \<and> fst (app_get_personalized_alerts sample_env
             \<lparr>req_args = [], req_json = JBool True\<rparr> sample_state)
       = (JsonError ''Internal server error'', 500)
   \<and> fst (app_get_personalized_alerts sample_env
             \<lparr>req_args = [], req_json = JStr ''velocity''\<rparr> sample_state)
       = (JsonError ''Internal server error'', 500)
   \<and> requests (snd (app_get_personalized_alerts sample_env number_body_request sample_state))
       = requests sample_state
   \<and> cache (snd (app_get_personalized_alerts sample_env number_body_request sample_state))
       = cache sample_state
   \<and> fst (app_get_personalized_alerts sample_env empty_request sample_state)
       = (JsonError ''City parameter is required'', 400)
   \<and> fst (app_get_current_weather sample_env empty_request sample_state)
       = (JsonError ''City parameter is required'', 400)"
  by code_simp

subsection \<open>Falsy cached values\<close>

lemma get_weather_after_falsy:
  assumes "map_of (cache s) (''current_weather_'' @ city) = Some (v, ts)" and "\<not> truthy v"
  shows "requests (snd (WeatherService_get_current_weather env city s))
           = requests s @ [(base_url @ ''/weather'', query_params env city)]
     \<and> fst (WeatherService_get_current_weather env city s)
         = (case http_weather env (Suc (tick s)) (query_params env city) of
              Inr data \<Rightarrow> format_current data
            | Inl e \<Rightarrow> Inl (Exception (''Failed to fetch current weather data: ''
                                       @ redact env (err_msg e))))"
  using assms
  by (auto simp: WeatherService_get_current_weather_def CacheService_get_def
        CacheService_set_def requests_get_weather_def handle_request_exception_def Let_def
        split: sum.splits option.splits prod.splits)

lemma get_forecast_after_falsy:
  assumes "map_of (cache s) (''forecast_'' @ city) = Some (v, ts)" and "\<not> truthy v"
  shows "requests (snd (WeatherService_get_forecast env city s))
           = requests s @ [(base_url @ ''/forecast'', query_params env city)]
     \<and> fst (WeatherService_get_forecast env city s)
         = (case http_forecast env (Suc (tick s)) (query_params env city) of
              Inr data \<Rightarrow> format_forecast data
            | Inl e \<Rightarrow> Inl (Exception (''Failed to fetch forecast data: ''
                                       @ redact env (err_msg e))))"
  using assms
  by (auto simp: WeatherService_get_forecast_def CacheService_get_def
        CacheService_set_def requests_get_forecast_def handle_request_exception_def Let_def
        split: sum.splits option.splits prod.splits)

lemma cache_get_absent_or_None:
  "map_of (cache s) k = None \<Longrightarrow> fst (CacheService_get env k s) = PyNone"
  "map_of (cache s) k = Some (PyNone, ts) \<Longrightarrow> fst (CacheService_get env k s) = PyNone"
  by (simp_all add: CacheService_get_def Let_def)

text \<open>
  Claim C10. \<^verbatim>\<open>CacheService.get\<close> returns \<^verbatim>\<open>None\<close> when the key is absent and also when
  the stored value is \<^verbatim>\<open>None\<close>. \<^verbatim>\<open>None\<close>, the empty dictionary, the empty list, 0 and
  the empty string are falsy, and with any falsy value cached under their key
  \<^verbatim>\<open>get_current_weather\<close> and \<^verbatim>\<open>get_forecast\<close> send a request to the provider and return
  what the fetch gives, not the cached value.
\<close>

theorem C10_falsy_cached_value_is_a_miss:
  "(map_of (cache s) k = None \<longrightarrow> fst (CacheService_get env k s) = PyNone)
   \<and> (map_of (cache s) k = Some (PyNone, ts) \<longrightarrow> fst (CacheService_get env k s) = PyNone)
   \<and> \<not> truthy PyNone \<and> \<not> truthy (PyDict []) \<and> \<not> truthy (PyList []) \<and> \<not> truthy (PyNum 0)
   \<and> \<not> truthy (PyStr [])
   \<and> (map_of (cache s) (''current_weather_'' @ city) = Some (v, ts) \<and> \<not> truthy v \<longrightarrow>
        requests (snd (WeatherService_get_current_weather env city s))
          = requests s @ [(base_url @ ''/weather'', query_params env city)]
        \<and> fst (WeatherService_get_current_weather env city s)
            = (case http_weather env (Suc (tick s)) (query_params env city) of
                 Inr data \<Rightarrow> format_current data
               | Inl e \<Rightarrow> Inl (Exception (''Failed to fetch current weather data: ''
                                          @ redact env (err_msg e)))))
   \<and> (map_of (cache s) (''forecast_'' @ city) = Some (v, ts) \<and> \<not> truthy v \<longrightarrow>
        requests (snd (WeatherService_get_forecast env city s))
          = requests s @ [(base_url @ ''/forecast'', query_params env city)]
        \<and> fst (WeatherService_get_forecast env city s)
            = (case http_forecast env (Suc (tick s)) (query_params env city) of
                 Inr data \<Rightarrow> format_forecast data
               | Inl e \<Rightarrow> Inl (Exception (''Failed to fetch forecast data: ''
                                          @ redact env (err_msg e)))))"
  using get_weather_after_falsy [where s=s and city=city and v=v and ts=ts and env=env]
    get_forecast_after_falsy [where s=s and city=city and v=v and ts=ts and env=env]
    cache_get_absent_or_None(1) [where s=s and k=k and env=env]
    cache_get_absent_or_None(2) [where s=s and k=k and env=env and ts=ts]
  by simp


theorem C10_witness:
  "map_of (cache sample_state) ''absent'' = None
   \<and> fst (CacheService_get sample_env ''absent'' sample_state) = PyNone
   \<and> map_of (cache (CacheService_set sample_env ''n'' PyNone sample_state)) ''n''
       = Some (PyNone, 700)
   \<and> fst (CacheService_get sample_env ''n'' (CacheService_set sample_env ''n'' PyNone sample_state))
       = PyNone
   \<and> map_of (cache falsy_state) (''current_weather_'' @ ''Paris'') = Some (PyDict [], 0)
   \<and> \<not> truthy (PyDict [])
   \<and> requests (snd (WeatherService_get_current_weather serving_env ''Paris'' falsy_state))
       = [(''https://api.openweathermap.org/data/2.5/weather'',
           [(''q'', ''Paris''), (''appid'', ''0123456789abcdef''), (''units'', ''metric'')])]
   \<and> fst (WeatherService_get_current_weather serving_env ''Paris'' falsy_state)
       = format_current sample_current
   \<and> map_of (cache falsy_state) (''forecast_'' @ ''Paris'') = Some (PyNum 0, 0)
   \<and> \<not> truthy (PyNum 0)
   \<and> requests (snd (WeatherService_get_forecast serving_env ''Paris'' falsy_state))
       = [(''https://api.openweathermap.org/data/2.5/forecast'',
           [(''q'', ''Paris''), (''appid'', ''0123456789abcdef''), (''units'', ''metric'')])]
   \<and> fst (WeatherService_get_forecast serving_env ''Paris'' falsy_state)
       = format_forecast sample_forecast"
proof -
  have a: "map_of (cache sample_state) ''absent'' = None"
    by (simp add: sample_state_def)
  have b: "map_of (cache (CacheService_set sample_env ''n'' PyNone sample_state)) ''n''
       = Some (PyNone, 700)"
    by (simp add: CacheService_set_def sample_state_def sample_env_def update_conv')
  have c: "map_of (cache falsy_state) (''current_weather_'' @ ''Paris'') = Some (PyDict [], 0)"
    "map_of (cache falsy_state) (''forecast_'' @ ''Paris'') = Some (PyNum 0, 0)"
    "\<not> truthy (PyDict [])" "\<not> truthy (PyNum 0)"
    by (simp_all add: falsy_state_def)
  have d: "http_weather serving_env (Suc (tick falsy_state)) (query_params serving_env ''Paris'')
       = Inr sample_current"
    "http_forecast serving_env (Suc (tick falsy_state)) (query_params serving_env ''Paris'')
       = Inr sample_forecast"
    "requests falsy_state = []"
    "base_url @ ''/weather'' = ''https://api.openweathermap.org/data/2.5/weather''"
    "base_url @ ''/forecast'' = ''https://api.openweathermap.org/data/2.5/forecast''"
    "query_params serving_env ''Paris''
       = [(''q'', ''Paris''), (''appid'', ''0123456789abcdef''), (''units'', ''metric'')]"
    by (simp_all add: serving_env_def parsing_env_def falsy_state_def base_url_def
          query_params_def)
  from C10_falsy_cached_value_is_a_miss [where s=sample_state and k="''absent''"
      and env=sample_env and ts=0 and city="''Paris''" and v=PyNone]
    C10_falsy_cached_value_is_a_miss [where s="CacheService_set sample_env ''n'' PyNone sample_state"
      and k="''n''" and env=sample_env and ts=700 and city="''Paris''" and v=PyNone]
    C10_falsy_cached_value_is_a_miss [where s=falsy_state and k="''k''" and env=serving_env
      and ts=0 and city="''Paris''" and v="PyDict []"]
    C10_falsy_cached_value_is_a_miss [where s=falsy_state and k="''k''" and env=serving_env
      and ts=0 and city="''Paris''" and v="PyNum 0"]
    a b c d
  show ?thesis by simp
qed

subsection \<open>Strings, and the redaction of \<^verbatim>\<open>WeatherService\<close>\<close>

text \<open>\<open>str_in\<close> is the sublist relation of the library. Replacing a non-empty key by a
  non-empty marker that shares no character with it leaves no occurrence of the key, so
  the except block of \<^verbatim>\<open>WeatherService\<close> raises and logs texts free of the key, for
  keys that do not occur in the fixed message prefixes either.\<close>

lemma str_in_sublist: "str_in sub s = sublist sub s"
  by (induction s) (simp_all add: sublist_Cons_right)

lemma str_in_lower: "str_in sub s \<Longrightarrow> str_in (lower sub) (lower s)"
  by (simp add: str_in_sublist lower_def map_mono_sublist)

lemma lower_rain_drizzle: "lower ''rain'' = ''rain''" "lower ''drizzle'' = ''drizzle''"
  by (simp_all add: lower_def lower_char_def)

declare str_replace_ne.simps [simp del]

lemma str_replace_ne_Nil: "str_replace_ne old new [] = []"
  by (subst str_replace_ne.simps) simp

lemma str_replace_ne_prefix:
  "old \<noteq> [] \<Longrightarrow> s \<noteq> [] \<Longrightarrow> prefix old s \<Longrightarrow>
   str_replace_ne old new s = new @ str_replace_ne old new (drop (length old) s)"
  by (subst str_replace_ne.simps) simp

lemma str_replace_ne_Cons:
  "old \<noteq> [] \<Longrightarrow> \<not> prefix old (c # cs) \<Longrightarrow>
   str_replace_ne old new (c # cs) = c # str_replace_ne old new cs"
  by (subst str_replace_ne.simps) simp

lemma prefix_str_replace_ne:
  assumes "new \<noteq> []" and "set u \<inter> set new = {}"
      and "prefix u (str_replace_ne old new t)"
  shows "prefix u t"
  using assms
proof (induction old new t arbitrary: u rule: str_replace_ne.induct)
  case (1 old new s)
  show ?case
  proof (cases "old = [] \<or> s = []")
    case True
    with "1.prems" show ?thesis by (subst (asm) str_replace_ne.simps) auto
  next
    case False
    show ?thesis
    proof (cases "prefix old s")
      case True
      with False "1.prems"(3) have p: "prefix u (new @ str_replace_ne old new (drop (length old) s))"
        by (simp add: str_replace_ne_prefix)
      have "u = []"
      proof (rule ccontr)
        assume "u \<noteq> []"
        then obtain a u' where u: "u = a # u'" by (cases u) auto
        from "1.prems"(1) obtain b new' where n: "new = b # new'" by (cases new) auto
        from p u n have "a = b" by simp
        with u n "1.prems"(2) show False by auto
      qed
      then show ?thesis by simp
    next
      case notp: False
      from False obtain c cs where s: "s = c # cs" by (cases s) auto
      from False notp "1.prems"(3) s have p: "prefix u (c # str_replace_ne old new cs)"
        by (simp add: str_replace_ne_Cons)
      show ?thesis
      proof (cases u)
        case Nil
        then show ?thesis by simp
      next
        case (Cons a u')
        with p have a: "a = c" and p': "prefix u' (str_replace_ne old new cs)" by auto
        from "1.prems"(2) Cons have "set u' \<inter> set new = {}" by auto
        from "1.IH"(2) [OF False notp "1.prems"(1) this] p' s have "prefix u' cs" by simp
        with a Cons s show ?thesis by simp
      qed
    qed
  qed
qed

lemma no_occurrence_after_replace:
  assumes "old \<noteq> []" and "new \<noteq> []" and "set old \<inter> set new = {}"
  shows "\<not> sublist old (str_replace_ne old new s)"
  using assms
proof (induction old new s rule: str_replace_ne.induct)
  case (1 old new s)
  show ?case
  proof (cases "s = []")
    case True
    with "1.prems" show ?thesis by (subst str_replace_ne.simps) auto
  next
    case False
    with "1.prems" have ne: "\<not> (old = [] \<or> s = [])" by simp
    show ?thesis
    proof (cases "prefix old s")
      case True
      from "1.IH"(1) [OF ne True "1.prems"]
      have IH: "\<not> sublist old (str_replace_ne old new (drop (length old) s))" .
      have eq: "str_replace_ne old new s = new @ str_replace_ne old new (drop (length old) s)"
        using ne True by (simp add: str_replace_ne_prefix)
      show ?thesis
      proof
        assume "sublist old (str_replace_ne old new s)"
        then consider "sublist old new"
          | "sublist old (str_replace_ne old new (drop (length old) s))"
          | xs1 xs2 where "old = xs1 @ xs2" "suffix xs1 new"
              "prefix xs2 (str_replace_ne old new (drop (length old) s))"
          unfolding eq sublist_append by blast
        then show False
        proof cases
          case 1
          then have "set old \<subseteq> set new" by (rule set_mono_sublist)
          with "1.prems" show False by (cases old) auto
        next
          case 2
          with IH show False by simp
        next
          case 3
          show False
          proof (cases "xs1 = []")
            case True
            with 3 IH show False by auto
          next
            case False
            from 3(2) have "set xs1 \<subseteq> set new" by (rule set_mono_suffix)
            moreover from 3(1) have "set xs1 \<subseteq> set old" by auto
            ultimately show False using False "1.prems"(3) by (cases xs1) auto
          qed
        qed
      qed
    next
      case notp: False
      from "1.IH"(2) [OF ne notp "1.prems"]
      have IH: "\<not> sublist old (str_replace_ne old new (tl s))" .
      from False obtain c cs where s: "s = c # cs" by (cases s) auto
      have eq: "str_replace_ne old new s = c # str_replace_ne old new cs"
        using ne notp s by (simp add: str_replace_ne_Cons)
      show ?thesis
      proof
        assume occ: "sublist old (str_replace_ne old new s)"
        then have "prefix old (str_replace_ne old new s) \<or> sublist old (str_replace_ne old new cs)"
          unfolding eq by (simp add: sublist_Cons_right)
        with IH s have "prefix old (str_replace_ne old new s)" by simp
        from prefix_str_replace_ne [OF "1.prems"(2,3) this] notp show False by simp
      qed
    qed
  qed
qed

lemma redact_removes_api_key:
  assumes "api_key env \<noteq> []" and "set (api_key env) \<inter> set ''[REDACTED]'' = {}"
  shows "\<not> str_in (api_key env) (redact env msg)"
proof (cases "str_in (api_key env) msg")
  case True
  then show ?thesis
    using no_occurrence_after_replace [OF assms(1) _ assms(2), of msg] assms(1)
    by (simp add: redact_def str_replace_def str_in_sublist)
next
  case False
  then show ?thesis by (simp add: redact_def)
qed

lemma no_occurrence_across:
  assumes "\<not> str_in k p" and "\<not> str_in k m" and "p \<noteq> []" and "last p \<notin> set k"
  shows "\<not> str_in k (p @ m)"
proof
  assume "str_in k (p @ m)"
  with assms(1,2) obtain xs1 xs2 where k: "k = xs1 @ xs2" "suffix xs1 p" "prefix xs2 m"
    unfolding str_in_sublist sublist_append by blast
  show False
  proof (cases "xs1 = []")
    case True
    with k assms(2) show False by (auto simp: str_in_sublist)
  next
    case False
    from k(2) obtain q where "p = q @ xs1" by (auto simp: suffix_def)
    with False have "last p = last xs1" by simp
    with False k(1) assms(4) show False by auto
  qed
qed

lemma WeatherService_redacts_api_key:
  assumes key: "api_key env \<noteq> []" "set (api_key env) \<inter> set ''[REDACTED]'' = {}"
      and prefixes: "\<And>p. p \<in> {log_prefix, raise_prefix, ''Response content: ''} \<Longrightarrow>
                        p \<noteq> [] \<and> last p \<notin> set (api_key env) \<and> \<not> str_in (api_key env) p"
      and old_logs: "\<And>l m. (l, [Lit m]) \<in> set (logs s) \<Longrightarrow> \<not> str_in (api_key env) m"
      and run: "handle_request_exception env log_prefix raise_prefix e s = (r, s')"
  shows "(\<exists>m. r = Inl (Exception m) \<and> \<not> str_in (api_key env) m)
     \<and> (\<forall>l m. (l, [Lit m]) \<in> set (logs s') \<longrightarrow> \<not> str_in (api_key env) m)"
proof -
  have clean: "\<not> str_in (api_key env) (p @ redact env msg)"
    if "p \<in> {log_prefix, raise_prefix, ''Response content: ''}" for p msg
    using prefixes [OF that] redact_removes_api_key [OF key, of msg]
    by (intro no_occurrence_across) auto
  have c1: "\<not> str_in (api_key env) (log_prefix @ redact env msg)"
    and c2: "\<not> str_in (api_key env) (raise_prefix @ redact env msg)"
    and c3: "\<not> str_in (api_key env) (''Response content: '' @ redact env msg)" for msg
    using clean by blast+
  from run c1 c2 c3 old_logs show ?thesis
    by (auto simp: handle_request_exception_def Let_def split: option.splits if_splits)
qed

lemma umbrella_for_provider_text:
  assumes "str_in ''rain'' raw \<or> str_in ''drizzle'' raw"
  shows "r_umbrella (slot_dict label temp (lower raw) wind)"
  using assms str_in_lower [of "''rain''" raw] str_in_lower [of "''drizzle''" raw]
  by (auto simp: slot_dict_def lower_rain_drizzle)

lemma sample_key_is_redactable:
  "api_key leaky_env \<noteq> [] \<and> set (api_key leaky_env) \<inter> set ''[REDACTED]'' = {}
   \<and> last ''Failed to fetch current weather data: '' \<notin> set (api_key leaky_env)
   \<and> \<not> str_in (api_key leaky_env) ''Failed to fetch current weather data: ''"
  by (simp add: leaky_env_def)


subsection \<open>The API key in error texts\<close>

text \<open>
  Claim C1. The claim asks that no error text surfaced or logged by a weather operation
  contain the API key. \<^verbatim>\<open>AIWeatherService\<close> does not redact: with a provider error whose
  text carries the request URL, the exception raised by \<^verbatim>\<open>get_enhanced_forecast\<close>,
  \<^verbatim>\<open>get_personalized_alerts\<close> and \<^verbatim>\<open>get_clothing_recommendations\<close>, the error logged and
  the body of the HTTP answer all contain the key, while \<^verbatim>\<open>WeatherService\<close> replaces it
  on the same error.
\<close>

theorem C1_ai_service_leaks_api_key:
  "fst (AIWeatherService_get_enhanced_forecast leaky_env ''Paris'' (CacheService_init 600))
     = Inl (Exception ''Failed to fetch enhanced forecast: 401 Client Error: Unauthorized for url: https://api.openweathermap.org/data/2.5/forecast?q=Paris&appid=0123456789abcdef&units=metric'')
   \<and> str_in (api_key leaky_env)
        (str_exc (projl (fst (AIWeatherService_get_enhanced_forecast leaky_env ''Paris''
           (CacheService_init 600)))))
   \<and> str_in (api_key leaky_env)
        (str_exc (projl (fst (AIWeatherService_get_personalized_alerts leaky_env ''Paris'' no_prefs
           (CacheService_init 600)))))
   \<and> str_in (api_key leaky_env)
        (str_exc (projl (fst (AIWeatherService_get_clothing_recommendations leaky_env ''Paris''
           (CacheService_init 600)))))
   \<and> last (logs (snd (AIWeatherService_get_enhanced_forecast leaky_env ''Paris''
           (CacheService_init 600))))
       = (ERROR, [Lit ''Error fetching enhanced forecast for Paris: 401 Client Error: Unauthorized for url: https://api.openweathermap.org/data/2.5/forecast?q=Paris&appid=0123456789abcdef&units=metric''])
   \<and> fst (app_get_enhanced_forecast leaky_env paris_request (CacheService_init 600))
       = (JsonError ''Failed to fetch enhanced forecast: 401 Client Error: Unauthorized for url: https://api.openweathermap.org/data/2.5/forecast?q=Paris&appid=0123456789abcdef&units=metric'', 500)
   \<and> fst (WeatherService_get_current_weather leaky_env ''Paris'' (CacheService_init 600))
       = Inl (Exception ''Failed to fetch current weather data: 401 Client Error: Unauthorized for url: https://api.openweathermap.org/data/2.5/weather?q=Paris&appid=[REDACTED]&units=metric'')"
  by code_simp

end
